theory Spec2Isabelle
  imports Complex_Main "HOL-Library.AList" "HOL-Library.Char_ord" "HOL-Library.List_Lexorder"
    "HOL-Library.Product_Lexorder"
begin

section \<open>Cells and strings\<close>

text \<open>
  A cell of a text column of a pandas table is a Python string, the float NaN that
  \<^verbatim>\<open>read_csv\<close> stores for an empty field, or \<^verbatim>\<open>None\<close> (what \<^verbatim>\<open>row.get\<close> gives for
  an absent column). A Python string is a list of code points; the model keeps the code
  points below 256, one \<^typ>\<open>char\<close> each.
\<close>

datatype cell = PyNone | NaN | Str string

text \<open>\<^verbatim>\<open>pd.notna\<close>: neither \<^verbatim>\<open>None\<close> nor NaN.\<close>

fun notna :: "cell \<Rightarrow> bool" where
  "notna PyNone = False"
| "notna NaN = False"
| "notna (Str s) = True"

text \<open>
  Truth value of a cell in an \<^verbatim>\<open>if\<close>: \<^verbatim>\<open>None\<close> and the empty string are false, every
  other string is true, and so is the float NaN (it is not zero).
\<close>

fun truthy :: "cell \<Rightarrow> bool" where
  "truthy PyNone = False"
| "truthy NaN = True"
| "truthy (Str s) = (s \<noteq> [])"

text \<open>
  \<^verbatim>\<open>str.isspace\<close> on one code point below 256: tab, line feed, vertical tab, form feed,
  carriage return, the four separators 28 to 31, space, next line (133) and no-break
  space (160).
\<close>

definition isspace :: "char \<Rightarrow> bool" where
  "isspace c = ((of_char c :: nat) \<in> {9, 10, 11, 12, 13, 28, 29, 30, 31, 32, 133, 160})"

text \<open>\<^verbatim>\<open>s.lstrip()\<close>, \<^verbatim>\<open>s.rstrip()\<close> and \<^verbatim>\<open>s.strip()\<close> with no argument.\<close>

definition lstrip :: "string \<Rightarrow> string" where
  "lstrip s = dropWhile isspace s"

definition rstrip :: "string \<Rightarrow> string" where
  "rstrip s = rev (dropWhile isspace (rev s))"

definition strip :: "string \<Rightarrow> string" where
  "strip s = rstrip (lstrip s)"

text \<open>
  \<^verbatim>\<open>s.upper()\<close>, as far as the code needs it: the result is only ever compared with
  \<^verbatim>\<open>'W'\<close>, and \<^verbatim>\<open>w\<close> and \<^verbatim>\<open>W\<close> are the only code points whose upper case is
  \<^verbatim>\<open>W\<close>. The model maps the letters a to z and leaves every other code point alone.
\<close>

definition upper_char :: "char \<Rightarrow> char" where
  "upper_char c =
     (case map_of (zip ''abcdefghijklmnopqrstuvwxyz'' ''ABCDEFGHIJKLMNOPQRSTUVWXYZ'') c of
        Some u \<Rightarrow> u
      | None \<Rightarrow> c)"

definition upper :: "string \<Rightarrow> string" where
  "upper s = map upper_char s"

definition comma :: char where
  "comma = CHR '',''"

text \<open>
  \<^verbatim>\<open>s.split(',', 1)\<close>: the string itself when it has no comma, otherwise the part before
  the first comma and the part after it.
\<close>

definition split_comma1 :: "string \<Rightarrow> string list" where
  "split_comma1 s =
     (if comma \<in> set s
      then [takeWhile (\<lambda>c. c \<noteq> comma) s, tl (dropWhile (\<lambda>c. c \<noteq> comma) s)]
      else [s])"

section \<open>The name normalizer\<close>

text \<open>
  \<^verbatim>\<open>_normalize_name\<close>. Its argument is a cell of a name column. The result
  \<^term>\<open>None\<close> is Python's \<^verbatim>\<open>None\<close>.
\<close>

definition normalize_name :: "cell \<Rightarrow> string option" where
  "normalize_name name =
     (case name of
        PyNone \<Rightarrow> None
      | NaN \<Rightarrow> None
      | Str s \<Rightarrow>
          (let name_str = strip s in
           if comma \<in> set name_str then
             (let parts = split_comma1 name_str;
                  last_part = strip (parts ! 0);
                  first_part = strip (parts ! 1)
              in Some (first_part @ '' '' @ last_part))
           else Some name_str))"

section \<open>Tables\<close>

text \<open>
  A row of the fight table \<^verbatim>\<open>mma_wtclass.csv\<close>, with the columns the functions below read.
  \<^term>\<open>round_nr\<close> is the column \<^verbatim>\<open>round\<close>; \<^term>\<open>None\<close> is a missing number.
\<close>

record fight =
  p1_name :: cell
  p2_name :: cell
  p1_result :: cell
  p2_result :: cell
  decision_group :: cell
  wtClass :: cell
  round_nr :: "int option"

text \<open>
  A row of the statistics table as \<^verbatim>\<open>load_ufc_stats\<close> returns it: the name, a string or
  NaN, and the numeric columns, a number or NaN (\<^term>\<open>None\<close>) each. Floating-point
  numbers are modelled as rationals: division is exact, and rounding is modelled only
  where percentages are added up, in \<^verbatim>\<open>win_percentages_by_weight_and_method\<close>.
\<close>

record fighter_stat =
  fighter_name :: cell
  SLpM :: "rat option"
  Str_Acc_Pct :: "rat option"
  SApM :: "rat option"
  Str_Def_Pct :: "rat option"
  TD_Avg :: "rat option"
  TD_Acc_Pct :: "rat option"
  TD_Def_Pct :: "rat option"
  Sub_Avg :: "rat option"

text \<open>A table that a function returns: its column labels and its rows.\<close>

record 'r frame =
  columns :: "string list"
  rows :: "'r list"

datatype error = ValueError string | KeyError string

section \<open>Method distributions\<close>

text \<open>
  \<^verbatim>\<open>Series.value_counts()\<close>: missing cells are dropped (\<^verbatim>\<open>dropna=True\<close> is the default),
  one entry per distinct value, most frequent first. pandas does not fix the order of
  entries with equal counts; the model sorts stably.
\<close>

definition series_value_counts :: "cell list \<Rightarrow> (string \<times> nat) list" where
  "series_value_counts col =
     (let vs = concat (map (\<lambda>c. case c of Str s \<Rightarrow> [s] | _ \<Rightarrow> []) col)
      in sort_key (\<lambda>r. - int (snd r)) (map (\<lambda>v. (v, count_list vs v)) (remdups vs)))"

text \<open>
  \<^verbatim>\<open>win_percentages_by_method\<close>. A row is (\<^verbatim>\<open>metodo\<close>, \<^verbatim>\<open>quantidade\<close>, \<^verbatim>\<open>percentual\<close>).
  When no cell is present there is no row, and nothing is divided.
\<close>

definition win_percentages_by_method :: "fight list \<Rightarrow> (string \<times> nat \<times> rat) frame" where
  "win_percentages_by_method df_wt =
     (let counts = series_value_counts (map decision_group df_wt);
          total = sum_list (map snd counts);
          with_pct = map (\<lambda>(m, q). (m, q, of_nat q / of_nat total * 100)) counts
      in \<lparr>columns = [''metodo'', ''quantidade'', ''percentual''],
          rows = sort_key (\<lambda>(m, q, p). - p) with_pct\<rparr>)"

text \<open>
  \<^verbatim>\<open>df_wt.groupby(['wtClass', 'decision_group']).size()\<close>: rows with a missing key are
  dropped (\<^verbatim>\<open>dropna=True\<close> is the default), one group per distinct pair of keys, the
  groups sorted by key.
\<close>

definition group_keys :: "fight list \<Rightarrow> (string \<times> string) list" where
  "group_keys df_wt =
     concat (map (\<lambda>r. case (wtClass r, decision_group r) of
                          (Str w, Str m) \<Rightarrow> [(w, m)]
                        | _ \<Rightarrow> []) df_wt)"

definition groupby_size :: "fight list \<Rightarrow> (string \<times> string \<times> nat) list" where
  "groupby_size df_wt =
     (let ks = group_keys df_wt
      in map (\<lambda>(w, m). (w, m, count_list ks (w, m))) (sort (remdups ks)))"

text \<open>
  \<^verbatim>\<open>win_percentages_by_weight_and_method\<close>. A row is (\<^verbatim>\<open>wtClass\<close>, \<^verbatim>\<open>metodo\<close>,
  \<^verbatim>\<open>quantidade\<close>, \<^verbatim>\<open>percentual\<close>); \<^verbatim>\<open>totals\<close> holds, for each row, the sum of
  \<^verbatim>\<open>quantidade\<close> over the rows of \<^verbatim>\<open>grouped\<close> with the same \<^verbatim>\<open>wtClass\<close>.

  The percentages of one weight class are added up below, so here the rounding of
  float64 is part of the model. \<^verbatim>\<open>grouped['quantidade'] / totals * 100\<close> converts the two
  counts, which is exact for counts below \<open>2\<^sup>5\<^sup>3\<close>, rounds their quotient, and rounds
  the product of the rounded quotient with 100. A float64 value is a rational, and \<open>fl\<close> is the rounding of the
  result of one operation: the function is given for every \<open>fl\<close>, and with the identity
  for \<open>fl\<close> its arithmetic is exact.
\<close>

definition class_total :: "(string \<times> string \<times> nat) list \<Rightarrow> string \<Rightarrow> nat" where
  "class_total grouped w = sum_list (map (\<lambda>(w', m, q). q) (filter (\<lambda>(w', m, q). w' = w) grouped))"

definition win_percentages_by_weight_and_method ::
    "(rat \<Rightarrow> rat) \<Rightarrow> fight list \<Rightarrow> (string \<times> string \<times> nat \<times> rat) frame" where
  "win_percentages_by_weight_and_method fl df_wt =
     (let grouped = groupby_size df_wt
      in \<lparr>columns = [''wtClass'', ''metodo'', ''quantidade'', ''percentual''],
          rows = map (\<lambda>(w, m, q).
                        (w, m, q, fl (fl (of_nat q / of_nat (class_total grouped w)) * 100)))
                   grouped\<rparr>)"

section \<open>Descriptive statistics\<close>

text \<open>
  \<^verbatim>\<open>Series.mean()\<close> and \<^verbatim>\<open>Series.median()\<close> skip NaN (\<^verbatim>\<open>skipna=True\<close> is the default)
  and give NaN when nothing is left. The median of an even number of values is the mean
  of the two middle ones.
\<close>

definition dropna_num :: "rat option list \<Rightarrow> rat list" where
  "dropna_num col = concat (map (\<lambda>c. case c of Some v \<Rightarrow> [v] | None \<Rightarrow> []) col)"

definition series_mean :: "rat option list \<Rightarrow> rat option" where
  "series_mean col =
     (let vs = dropna_num col
      in if vs = [] then None else Some (sum_list vs / of_nat (length vs)))"

definition series_median :: "rat option list \<Rightarrow> rat option" where
  "series_median col =
     (let vs = sort (dropna_num col); n = length vs
      in if n = 0 then None
         else if odd n then Some (vs ! (n div 2))
         else Some ((vs ! (n div 2 - 1) + vs ! (n div 2)) / 2))"

text \<open>\<^verbatim>\<open>summary_fighter_stats\<close>: the dictionary, in the order its keys are set.\<close>

definition summary_fighter_stats :: "fighter_stat list \<Rightarrow> (string \<times> rat option) list" where
  "summary_fighter_stats df_stats =
     [(''media_precisao_golpes'', series_mean (map Str_Acc_Pct df_stats)),
      (''mediana_precisao_golpes'', series_median (map Str_Acc_Pct df_stats)),
      (''media_precisao_quedas'', series_mean (map TD_Acc_Pct df_stats)),
      (''mediana_precisao_quedas'', series_median (map TD_Acc_Pct df_stats)),
      (''media_quedas_por_luta'', series_mean (map TD_Avg df_stats)),
      (''mediana_quedas_por_luta'', series_median (map TD_Avg df_stats)),
      (''media_golpes_por_minuto'', series_mean (map SLpM df_stats)),
      (''mediana_golpes_por_minuto'', series_median (map SLpM df_stats)),
      (''media_finalizacao_por_luta'', series_mean (map Sub_Avg df_stats)),
      (''mediana_finalizacao_por_luta'', series_median (map Sub_Avg df_stats))]"

section \<open>Top fighters by a metric\<close>

text \<open>
  For \<^verbatim>\<open>top_fighters_by_metric\<close> the set of columns matters, so the statistics table is
  given by columns: the name column \<^verbatim>\<open>fighter_name\<close> and the numeric columns, each with
  its label.
\<close>

record stats_columns =
  name_col :: "cell list"
  metric_cols :: "(string \<times> rat option list) list"

definition frame_columns :: "stats_columns \<Rightarrow> string list" where
  "frame_columns df_stats = ''fighter_name'' # map fst (metric_cols df_stats)"

text \<open>The table of \<^typ>\<open>fighter_stat\<close> rows, by columns.\<close>

definition by_columns :: "fighter_stat list \<Rightarrow> stats_columns" where
  "by_columns df_stats =
     \<lparr>name_col = map fighter_name df_stats,
      metric_cols =
        [(''SLpM'', map SLpM df_stats), (''Str_Acc_Pct'', map Str_Acc_Pct df_stats),
         (''SApM'', map SApM df_stats), (''Str_Def_Pct'', map Str_Def_Pct df_stats),
         (''TD_Avg'', map TD_Avg df_stats), (''TD_Acc_Pct'', map TD_Acc_Pct df_stats),
         (''TD_Def_Pct'', map TD_Def_Pct df_stats), (''Sub_Avg'', map Sub_Avg df_stats)]\<rparr>"

text \<open>
  The messages of the \<^verbatim>\<open>ValueError\<close> that the function raises and of the one that
  \<^verbatim>\<open>sort_values\<close> raises (0xE9 and 0xE3 are the code points of the accented letters,
  0x27 is the apostrophe).
\<close>

definition metric_not_found :: "string \<Rightarrow> string" where
  "metric_not_found metric =
     ''M'' @ [CHR 0xE9] @ ''trica '' @ [CHR 0x27] @ metric @ [CHR 0x27]
       @ '' n'' @ [CHR 0xE3] @ ''o encontrada no DataFrame.''"

definition label_not_unique :: "string \<Rightarrow> string" where
  "label_not_unique label =
     ''The column label '' @ [CHR 0x27] @ label @ [CHR 0x27] @ '' is not unique.''"

text \<open>
  \<^verbatim>\<open>DataFrame.dropna()\<close> on the two selected columns, \<^verbatim>\<open>head(n)\<close> (a negative \<^verbatim>\<open>n\<close>
  leaves the last rows out), and \<^verbatim>\<open>sort_values(metric, ascending=False)\<close>, which raises
  a \<^verbatim>\<open>ValueError\<close> when the label stands for more than one of the selected columns.
  pandas does not fix the order of rows with equal values; the model sorts stably.
\<close>

definition dropna_pairs :: "(cell \<times> rat option) list \<Rightarrow> (string \<times> rat) list" where
  "dropna_pairs rs =
     concat (map (\<lambda>r. case r of (Str n, Some v) \<Rightarrow> [(n, v)] | _ \<Rightarrow> []) rs)"

definition head :: "int \<Rightarrow> 'a list \<Rightarrow> 'a list" where
  "head n xs = (if 0 \<le> n then take (nat n) xs else take (length xs - nat (- n)) xs)"

definition top_fighters_by_metric ::
    "stats_columns \<Rightarrow> string \<Rightarrow> int \<Rightarrow> error + (string \<times> rat) frame" where
  "top_fighters_by_metric df_stats metric top_n =
     (if metric \<notin> set (frame_columns df_stats)
      then Inl (ValueError (metric_not_found metric))
      else
        (case (if metric = ''fighter_name'' then []
               else filter (\<lambda>c. fst c = metric) (metric_cols df_stats)) of
           [(label, vals)] \<Rightarrow>
             (let subset = dropna_pairs (zip (name_col df_stats) vals)
              in Inr \<lparr>columns = [''fighter_name'', metric],
                      rows = head top_n (sort_key (\<lambda>r. - snd r) subset)\<rparr>)
         | _ \<Rightarrow> Inl (ValueError (label_not_unique metric))))"

section \<open>The fighter summary\<close>

text \<open>
  A \<^verbatim>\<open>defaultdict(int)\<close> keyed by fighter names: the keys in the order they were first
  set. \<^term>\<open>get0\<close> is \<^verbatim>\<open>d.get(k, 0)\<close> and \<^term>\<open>incr\<close> is \<^verbatim>\<open>d[k] += 1\<close>.
\<close>

type_synonym tally = "(string \<times> nat) list"

definition get0 :: "tally \<Rightarrow> string \<Rightarrow> nat" where
  "get0 d k = (case map_of d k of Some n \<Rightarrow> n | None \<Rightarrow> 0)"

definition incr :: "tally \<Rightarrow> string \<Rightarrow> tally" where
  "incr d k = AList.update k (get0 d k + 1) d"

record tallies =
  total_fights :: tally
  total_wins :: tally
  wins_ko :: tally
  wins_sub :: tally
  wins_dec :: tally
  wins_dq :: tally
  wins_other :: tally
  wins_round1 :: tally

definition no_tallies :: tallies where
  "no_tallies =
     \<lparr>total_fights = [], total_wins = [], wins_ko = [], wins_sub = [], wins_dec = [],
      wins_dq = [], wins_other = [], wins_round1 = []\<rparr>"

text \<open>
  The result code of one side:
  \<^verbatim>\<open>str(x).strip().upper() if pd.notna(x) else ''\<close>.
\<close>

definition result_code :: "cell \<Rightarrow> string" where
  "result_code x = (case x of Str s \<Rightarrow> upper (strip s) | _ \<Rightarrow> [])"

text \<open>
  The block that counts one win; the source has it twice, once for each side.
\<close>

definition count_win :: "string \<Rightarrow> fight \<Rightarrow> tallies \<Rightarrow> tallies" where
  "count_win fighter row t =
     (let method = decision_group row;
          t1 = t\<lparr>total_wins := incr (total_wins t) fighter\<rparr>;
          t2 = (if round_nr row = Some 1
                then t1\<lparr>wins_round1 := incr (wins_round1 t1) fighter\<rparr> else t1)
      in if method = Str ''KO/TKO'' then t2\<lparr>wins_ko := incr (wins_ko t2) fighter\<rparr>
         else if method = Str ''Submission'' then t2\<lparr>wins_sub := incr (wins_sub t2) fighter\<rparr>
         else if method = Str ''Decision'' then t2\<lparr>wins_dec := incr (wins_dec t2) fighter\<rparr>
         else if method = Str ''DQ'' then t2\<lparr>wins_dq := incr (wins_dq t2) fighter\<rparr>
         else t2\<lparr>wins_other := incr (wins_other t2) fighter\<rparr>)"

text \<open>
  The body of the loop over the fights in \<^verbatim>\<open>fighter_summary\<close>. The first branch is taken
  when \<^verbatim>\<open>p1_res == 'W' and fighter1 is not None\<close>, the second when the first is not and
  \<^verbatim>\<open>p2_res == 'W' and fighter2 is not None\<close>.
\<close>

definition summary_step :: "tallies \<Rightarrow> fight \<Rightarrow> tallies" where
  "summary_step t row =
     (let fighter1 = normalize_name (p1_name row);
          fighter2 = normalize_name (p2_name row);
          t1 = (case fighter1 of
                  Some f \<Rightarrow> t\<lparr>total_fights := incr (total_fights t) f\<rparr> | None \<Rightarrow> t);
          t2 = (case fighter2 of
                  Some f \<Rightarrow> t1\<lparr>total_fights := incr (total_fights t1) f\<rparr> | None \<Rightarrow> t1);
          p1_res = result_code (p1_result row);
          p2_res = result_code (p2_result row)
      in case (if p1_res = ''W'' then fighter1 else None) of
           Some f1 \<Rightarrow> count_win f1 row t2
         | None \<Rightarrow>
             (case (if p2_res = ''W'' then fighter2 else None) of
                Some f2 \<Rightarrow> count_win f2 row t2
              | None \<Rightarrow> t2))"

text \<open>
  The columns of a row of the summary, in the three groups the function builds them in:
  the counts, the percentages by method, and the columns joined from the statistics.
\<close>

record count_cols =
  row_fighter_name :: cell
  row_total_fights :: nat
  row_total_wins :: nat
  row_win_percent :: rat
  row_wins_ko :: nat
  row_wins_sub :: nat
  row_wins_dec :: nat
  row_wins_dq :: nat
  row_wins_other :: nat
  row_wins_round1 :: nat

record pct_cols =
  wins_ko_pct :: "rat option"
  wins_sub_pct :: "rat option"
  wins_dec_pct :: "rat option"
  wins_dq_pct :: "rat option"
  wins_other_pct :: "rat option"
  wins_round1_pct :: "rat option"

record joined_cols =
  joined_TD_Acc_Pct :: "rat option"
  joined_Str_Acc_Pct :: "rat option"
  joined_SLpM :: "rat option"
  joined_TD_Avg :: "rat option"
  joined_Sub_Avg :: "rat option"

record summary_row =
  counts :: count_cols
  percents :: pct_cols
  joined :: joined_cols

text \<open>\<^verbatim>\<open>d.get(fighter, 0)\<close> for a key that may be NaN: no tally has that key.\<close>

definition get_cell :: "tally \<Rightarrow> cell \<Rightarrow> nat" where
  "get_cell d fighter = (case fighter of Str f \<Rightarrow> get0 d f | _ \<Rightarrow> 0)"

definition count_row :: "tallies \<Rightarrow> cell \<Rightarrow> count_cols" where
  "count_row t fighter =
     (let tf = get_cell (total_fights t) fighter;
          tw = get_cell (total_wins t) fighter
      in \<lparr>row_fighter_name = fighter,
          row_total_fights = tf,
          row_total_wins = tw,
          row_win_percent = (if tf > 0 then of_nat tw / of_nat tf * 100 else 0),
          row_wins_ko = get_cell (wins_ko t) fighter,
          row_wins_sub = get_cell (wins_sub t) fighter,
          row_wins_dec = get_cell (wins_dec t) fighter,
          row_wins_dq = get_cell (wins_dq t) fighter,
          row_wins_other = get_cell (wins_other t) fighter,
          row_wins_round1 = get_cell (wins_round1 t) fighter\<rparr>)"

text \<open>
  \<^verbatim>\<open>summary_df[col] / summary_df['total_wins'].replace(0, np.nan) * 100\<close>, for one row.
\<close>

definition pct_of_wins :: "nat \<Rightarrow> nat \<Rightarrow> rat option" where
  "pct_of_wins n tw = (if tw = 0 then None else Some (of_nat n / of_nat tw * 100))"

definition pct_row :: "count_cols \<Rightarrow> pct_cols" where
  "pct_row c =
     \<lparr>wins_ko_pct = pct_of_wins (row_wins_ko c) (row_total_wins c),
      wins_sub_pct = pct_of_wins (row_wins_sub c) (row_total_wins c),
      wins_dec_pct = pct_of_wins (row_wins_dec c) (row_total_wins c),
      wins_dq_pct = pct_of_wins (row_wins_dq c) (row_total_wins c),
      wins_other_pct = pct_of_wins (row_wins_other c) (row_total_wins c),
      wins_round1_pct = pct_of_wins (row_wins_round1 c) (row_total_wins c)\<rparr>"

text \<open>
  \<^verbatim>\<open>summary_df.merge(stats_subset, how='left', on='fighter_name')\<close>: one row for each
  statistics row with the same name (pandas joins NaN keys with each other), and one row
  with missing statistics when there is none.
\<close>

definition stats_subset :: "fighter_stat \<Rightarrow> joined_cols" where
  "stats_subset s =
     \<lparr>joined_TD_Acc_Pct = TD_Acc_Pct s, joined_Str_Acc_Pct = Str_Acc_Pct s,
      joined_SLpM = SLpM s, joined_TD_Avg = TD_Avg s, joined_Sub_Avg = Sub_Avg s\<rparr>"

definition no_stats :: joined_cols where
  "no_stats =
     \<lparr>joined_TD_Acc_Pct = None, joined_Str_Acc_Pct = None, joined_SLpM = None,
      joined_TD_Avg = None, joined_Sub_Avg = None\<rparr>"

definition merge_left :: "fighter_stat list \<Rightarrow> count_cols \<Rightarrow> summary_row list" where
  "merge_left df_stats c =
     (let ms = filter (\<lambda>s. fighter_name s = row_fighter_name c) df_stats
      in if ms = [] then [\<lparr>counts = c, percents = pct_row c, joined = no_stats\<rparr>]
         else map (\<lambda>s. \<lparr>counts = c, percents = pct_row c, joined = stats_subset s\<rparr>) ms)"

definition summary_columns :: "string list" where
  "summary_columns =
     [''fighter_name'', ''total_fights'', ''total_wins'', ''win_percent'', ''wins_ko'',
      ''wins_sub'', ''wins_dec'', ''wins_dq'', ''wins_other'', ''wins_round1'',
      ''wins_ko_pct'', ''wins_sub_pct'', ''wins_dec_pct'', ''wins_dq_pct'', ''wins_other_pct'',
      ''wins_round1_pct'', ''TD_Acc_Pct'', ''Str_Acc_Pct'', ''SLpM'', ''TD_Avg'', ''Sub_Avg'']"

text \<open>
  \<^verbatim>\<open>fighter_summary\<close>. The fighters are a Python set, whose order of iteration is not
  fixed; the model lists each fighter once. With no fighter at all,
  \<^verbatim>\<open>pd.DataFrame([])\<close> has no column and reading \<^verbatim>\<open>summary_df['wins_ko']\<close> raises
  \<^verbatim>\<open>KeyError\<close>.
\<close>

definition fighter_summary ::
    "fight list \<Rightarrow> fighter_stat list \<Rightarrow> error + summary_row frame" where
  "fighter_summary df_wt df_stats =
     (let t = foldl summary_step no_tallies df_wt;
          fighters = remdups (map (\<lambda>kv. Str (fst kv)) (total_fights t)
                              @ map fighter_name df_stats);
          rows = map (count_row t) fighters
      in if rows = [] then Inl (KeyError ''wins_ko'')
         else Inr \<lparr>columns = summary_columns,
                   rows = concat (map (merge_left df_stats) rows)\<rparr>)"

section \<open>Wins by fighter, weight class and method\<close>

text \<open>
  The body of the loop in \<^verbatim>\<open>fighter_wins_by_category_and_method\<close>: the records that one
  fight appends, none or one.
\<close>

definition win_record :: "fight \<Rightarrow> (string \<times> cell \<times> cell) list" where
  "win_record row =
     (let method = decision_group row;
          weight_class = wtClass row;
          p1_res = result_code (p1_result row);
          p2_res = result_code (p2_result row);
          winner = (if p1_res = ''W'' then p1_name row
                    else if p2_res = ''W'' then p2_name row
                    else PyNone)
      in if truthy winner then
           (case normalize_name winner of
              Some normalized \<Rightarrow>
                if normalized \<noteq> [] then [(normalized, weight_class, method)] else []
            | None \<Rightarrow> [])
         else [])"

text \<open>
  \<^verbatim>\<open>df.value_counts(['fighter_name', 'wtClass', 'metodo'])\<close>: rows with a missing cell
  are dropped (\<^verbatim>\<open>dropna=True\<close> is the default), one row per distinct triple, most
  frequent first.
\<close>

definition present_records :: "(string \<times> cell \<times> cell) list \<Rightarrow> (string \<times> string \<times> string) list" where
  "present_records records =
     concat (map (\<lambda>r. case r of (n, Str w, Str m) \<Rightarrow> [(n, w, m)] | _ \<Rightarrow> []) records)"

definition frame_value_counts ::
    "(string \<times> cell \<times> cell) list \<Rightarrow> (string \<times> string \<times> string \<times> nat) list" where
  "frame_value_counts records =
     (let ks = present_records records
      in sort_key (\<lambda>(n, w, m, c). - int c)
           (map (\<lambda>(n, w, m). (n, w, m, count_list ks (n, w, m))) (remdups ks)))"

definition fighter_wins_by_category_and_method ::
    "fight list \<Rightarrow> (string \<times> string \<times> string \<times> nat) frame" where
  "fighter_wins_by_category_and_method df_wt =
     (let records = concat (map win_record df_wt)
      in if records = []
         then \<lparr>columns = [''fighter_name'', ''wtClass'', ''metodo'', ''wins''], rows = []\<rparr>
         else \<lparr>columns = [''fighter_name'', ''wtClass'', ''metodo'', ''wins''],
               rows = frame_value_counts records\<rparr>)"

section \<open>Examples and notions used in the statements\<close>

text \<open>
  One fight, won by John Doe by knockout in the second round, and the statistics of two
  fighters, one of whom has no fight.
\<close>

definition ko_fight :: fight where
  "ko_fight =
     \<lparr>p1_name = Str ''Doe, John'', p2_name = Str ''Ann Lee'', p1_result = Str ''W'',
      p2_result = Str ''L'', decision_group = Str ''KO/TKO'', wtClass = Str ''Lightweight'',
      round_nr = Some 2\<rparr>"

definition example_fights :: "fight list" where
  "example_fights = [ko_fight]"

definition example_stats :: "fighter_stat list" where
  "example_stats =
     [\<lparr>fighter_name = Str ''John Doe'', SLpM = Some 4, Str_Acc_Pct = Some 50, SApM = Some 3,
       Str_Def_Pct = Some 60, TD_Avg = Some 1, TD_Acc_Pct = Some 30, TD_Def_Pct = None,
       Sub_Avg = Some (1 / 2)\<rparr>,
      \<lparr>fighter_name = Str ''Max Roe'', SLpM = Some 2, Str_Acc_Pct = None, SApM = Some 5,
       Str_Def_Pct = Some 40, TD_Avg = Some 3, TD_Acc_Pct = Some 20, TD_Def_Pct = Some 10,
       Sub_Avg = Some 0\<rparr>]"

definition ann_row :: summary_row where
  "ann_row =
     \<lparr>counts = \<lparr>row_fighter_name = Str ''Ann Lee'', row_total_fights = 1, row_total_wins = 0,
                row_win_percent = 0, row_wins_ko = 0, row_wins_sub = 0, row_wins_dec = 0,
                row_wins_dq = 0, row_wins_other = 0, row_wins_round1 = 0\<rparr>,
      percents = \<lparr>wins_ko_pct = None, wins_sub_pct = None, wins_dec_pct = None,
                  wins_dq_pct = None, wins_other_pct = None, wins_round1_pct = None\<rparr>,
      joined = no_stats\<rparr>"

definition john_row :: summary_row where
  "john_row =
     \<lparr>counts = \<lparr>row_fighter_name = Str ''John Doe'', row_total_fights = 1, row_total_wins = 1,
                row_win_percent = 100, row_wins_ko = 1, row_wins_sub = 0, row_wins_dec = 0,
                row_wins_dq = 0, row_wins_other = 0, row_wins_round1 = 0\<rparr>,
      percents = \<lparr>wins_ko_pct = Some 100, wins_sub_pct = Some 0, wins_dec_pct = Some 0,
                  wins_dq_pct = Some 0, wins_other_pct = Some 0, wins_round1_pct = Some 0\<rparr>,
      joined = \<lparr>joined_TD_Acc_Pct = Some 30, joined_Str_Acc_Pct = Some 50, joined_SLpM = Some 4,
                joined_TD_Avg = Some 1, joined_Sub_Avg = Some (1 / 2)\<rparr>\<rparr>"

definition max_row :: summary_row where
  "max_row =
     \<lparr>counts = \<lparr>row_fighter_name = Str ''Max Roe'', row_total_fights = 0, row_total_wins = 0,
                row_win_percent = 0, row_wins_ko = 0, row_wins_sub = 0, row_wins_dec = 0,
                row_wins_dq = 0, row_wins_other = 0, row_wins_round1 = 0\<rparr>,
      percents = \<lparr>wins_ko_pct = None, wins_sub_pct = None, wins_dec_pct = None,
                  wins_dq_pct = None, wins_other_pct = None, wins_round1_pct = None\<rparr>,
      joined = \<lparr>joined_TD_Acc_Pct = Some 20, joined_Str_Acc_Pct = None, joined_SLpM = Some 2,
                joined_TD_Avg = Some 3, joined_Sub_Avg = Some 0\<rparr>\<rparr>"

text \<open>
  The invariant of the loop of \<^verbatim>\<open>fighter_summary\<close>: for every fighter the five tallies by
  method add up to the tally of wins.
\<close>

definition balanced :: "tallies \<Rightarrow> bool" where
  "balanced t =
     (\<forall>f. get0 (wins_ko t) f + get0 (wins_sub t) f + get0 (wins_dec t) f
            + get0 (wins_dq t) f + get0 (wins_other t) f = get0 (total_wins t) f)"

text \<open>
  The fighter whom the loop body of \<^verbatim>\<open>fighter_summary\<close> credits with the win of a fight,
  and the cell that the loop body of \<^verbatim>\<open>fighter_wins_by_category_and_method\<close> takes as
  the winner; both are read off the conditions of the source and are related to the
  functions by the lemmas \<open>step_total_wins\<close> and \<open>win_record_winner\<close>.
\<close>

definition credited :: "fight \<Rightarrow> string option" where
  "credited row =
     (case (if result_code (p1_result row) = ''W'' then normalize_name (p1_name row) else None) of
        Some f1 \<Rightarrow> Some f1
      | None \<Rightarrow>
          (if result_code (p2_result row) = ''W'' then normalize_name (p2_name row) else None))"

definition winner_cell :: "fight \<Rightarrow> cell" where
  "winner_cell row =
     (if result_code (p1_result row) = ''W'' then p1_name row
      else if result_code (p2_result row) = ''W'' then p2_name row
      else PyNone)"

text \<open>The sum of all counts of a tally.\<close>

definition tally_sum :: "tally \<Rightarrow> nat" where
  "tally_sum d = sum_list (map snd d)"

text \<open>
  The wins of a fighter in the two views: the tally of wins that \<^verbatim>\<open>fighter_summary\<close>
  reports, and the sum of the column \<^verbatim>\<open>wins\<close> over the rows of the fighter in the table
  of \<^verbatim>\<open>fighter_wins_by_category_and_method\<close>.
\<close>

definition summary_wins :: "fight list \<Rightarrow> string \<Rightarrow> nat" where
  "summary_wins df_wt f = get0 (total_wins (foldl summary_step no_tallies df_wt)) f"

definition category_wins :: "fight list \<Rightarrow> string \<Rightarrow> nat" where
  "category_wins df_wt f =
     sum_list (map (\<lambda>(n, w, m, c). c)
       (filter (\<lambda>(n, w, m, c). n = f) (rows (fighter_wins_by_category_and_method df_wt))))"

text \<open>
  A fight on which the two views agree: if it appends a record of a win, its weight
  class and its method are present, and it does not have both results \<^verbatim>\<open>W\<close> with the
  name of side 1 missing.
\<close>

definition countable_win :: "fight \<Rightarrow> bool" where
  "countable_win row =
     ((win_record row = [] \<or> (notna (wtClass row) \<and> notna (decision_group row))) \<and>
      (result_code (p1_result row) = ''W'' \<and> result_code (p2_result row) = ''W''
         \<longrightarrow> normalize_name (p1_name row) \<noteq> None))"

text \<open>
  Fights with both results \<^verbatim>\<open>W\<close>, with and without the name of side 1, and a fight
  whose method is missing.
\<close>

definition both_W_fight :: fight where
  "both_W_fight =
     \<lparr>p1_name = Str ''Doe, John'', p2_name = Str ''Ann Lee'', p1_result = Str ''W'',
      p2_result = Str ''W'', decision_group = Str ''Decision'', wtClass = Str ''Lightweight'',
      round_nr = Some 3\<rparr>"

definition both_W_unnamed_fight :: fight where
  "both_W_unnamed_fight =
     \<lparr>p1_name = NaN, p2_name = Str ''Ann Lee'', p1_result = Str ''W'',
      p2_result = Str ''W'', decision_group = Str ''Decision'', wtClass = Str ''Lightweight'',
      round_nr = Some 3\<rparr>"

definition fight_without_method :: fight where
  "fight_without_method =
     \<lparr>p1_name = Str ''Doe, John'', p2_name = Str ''Ann Lee'', p1_result = Str ''W'',
      p2_result = Str ''L'', decision_group = NaN, wtClass = Str ''Lightweight'',
      round_nr = Some 1\<rparr>"

text \<open>
  Three fights with three methods in two weight classes, and two fights of one weight
  class, one of them with its method missing.
\<close>

definition decision_fight :: fight where
  "decision_fight =
     \<lparr>p1_name = Str ''Roe, Max'', p2_name = Str ''Ann Lee'', p1_result = Str ''L'',
      p2_result = Str ''W'', decision_group = Str ''Decision'', wtClass = Str ''Lightweight'',
      round_nr = Some 3\<rparr>"

definition fly_fight :: fight where
  "fly_fight =
     \<lparr>p1_name = Str ''Poe, Eve'', p2_name = Str ''Kim, Joy'', p1_result = Str ''W'',
      p2_result = Str ''L'', decision_group = Str ''Submission'', wtClass = Str ''Flyweight'',
      round_nr = Some 1\<rparr>"

definition method_fights :: "fight list" where
  "method_fights = [ko_fight, decision_fight, fly_fight]"

definition missing_method_fights :: "fight list" where
  "missing_method_fights = [ko_fight, fight_without_method]"

text \<open>The methods of the fights whose method is present, in the order of the fights.\<close>

definition present_methods :: "fight list \<Rightarrow> string list" where
  "present_methods df_wt =
     concat (map (\<lambda>c. case c of Str s \<Rightarrow> [s] | _ \<Rightarrow> []) (map decision_group df_wt))"




definition exact :: "rat \<Rightarrow> rat" where
  "exact x = x"

text \<open>A fight that nobody won.\<close>

definition draw_fight :: fight where
  "draw_fight =
     \<lparr>p1_name = Str ''Doe, John'', p2_name = Str ''Ann Lee'', p1_result = Str ''D'',
      p2_result = NaN, decision_group = Str ''Decision'', wtClass = Str ''Lightweight'',
      round_nr = Some 3\<rparr>"

text \<open>
  The five metrics that \<^verbatim>\<open>summary_fighter_stats\<close> summarises: the key of the mean, the key
  of the median, and the column.
\<close>

definition summarised_metrics :: "(string \<times> string \<times> (fighter_stat \<Rightarrow> rat option)) list" where
  "summarised_metrics =
     [(''media_precisao_golpes'', ''mediana_precisao_golpes'', Str_Acc_Pct),
      (''media_precisao_quedas'', ''mediana_precisao_quedas'', TD_Acc_Pct),
      (''media_quedas_por_luta'', ''mediana_quedas_por_luta'', TD_Avg),
      (''media_golpes_por_minuto'', ''mediana_golpes_por_minuto'', SLpM),
      (''media_finalizacao_por_luta'', ''mediana_finalizacao_por_luta'', Sub_Avg)]"

section \<open>Properties of the string functions\<close>

lemma comma_not_space: "\<not> isspace comma"
  by (simp add: isspace_def comma_def)

lemma dropWhile_stop: "\<not> P c \<Longrightarrow> dropWhile P (a @ c # b) = dropWhile P a @ c # b"
  by (induction a) auto

lemma rstrip_stop: "\<not> isspace c \<Longrightarrow> rstrip (a @ c # b) = a @ c # rstrip b"
  by (simp add: rstrip_def dropWhile_stop)

lemma lstrip_stop: "\<not> isspace c \<Longrightarrow> lstrip (a @ c # b) = lstrip a @ c # b"
  by (simp add: lstrip_def dropWhile_stop)

lemma lstrip_all_space: "\<forall>c\<in>set s. isspace c \<Longrightarrow> lstrip s = []"
  by (simp add: lstrip_def)

lemma rstrip_all_space: "\<forall>c\<in>set s. isspace c \<Longrightarrow> rstrip s = []"
  by (simp add: rstrip_def)

text \<open>Stripping on the left and on the right commute.\<close>

lemma strip_commute: "rstrip (lstrip s) = lstrip (rstrip s)"
proof (cases "\<forall>c\<in>set s. isspace c")
  case True
  then show ?thesis by (simp add: lstrip_all_space rstrip_all_space)
next
  case False
  then have "\<exists>x\<in>set s. \<not> isspace x" by simp
  then obtain a c b where s: "s = a @ c # b" and c: "\<not> isspace c"
    and a: "\<forall>x\<in>set a. \<not> \<not> isspace x"
    unfolding split_list_first_prop_iff by blast
  have la: "lstrip a = []" using a by (simp add: lstrip_all_space)
  have "lstrip s = c # b" using c la lstrip_stop [of c a b] by (simp add: s)
  moreover have "rstrip (c # b) = c # rstrip b" using c rstrip_stop [of c "[]" b] by simp
  moreover have "rstrip s = a @ c # rstrip b" unfolding s using c by (rule rstrip_stop)
  moreover have "lstrip (a @ c # rstrip b) = c # rstrip b"
    using c la lstrip_stop [of c a "rstrip b"] by simp
  ultimately show ?thesis by simp
qed

lemma lstrip_idem: "lstrip (lstrip s) = lstrip s"
  by (simp add: lstrip_def)

lemma rstrip_idem: "rstrip (rstrip s) = rstrip s"
  by (simp add: rstrip_def)

lemma strip_lstrip: "strip (lstrip s) = strip s"
  by (simp add: strip_def lstrip_idem)

lemma strip_rstrip: "strip (rstrip s) = strip s"
  by (simp add: strip_def strip_commute rstrip_idem)

lemma set_lstrip: "set (lstrip a) \<subseteq> set a"
  by (auto simp: lstrip_def dest: set_dropWhileD)

lemma set_strip: "set (strip a) \<subseteq> set a"
  by (auto simp: strip_def lstrip_def rstrip_def dest!: set_dropWhileD)

text \<open>
  \<^term>\<open>strip\<close> trims: it removes a run of white space at each end, and what is left
  neither starts nor ends with white space.
\<close>

lemma strip_trims:
  "\<exists>a b. s = a @ strip s @ b \<and> (\<forall>c\<in>set a. isspace c) \<and> (\<forall>c\<in>set b. isspace c)"
proof -
  let ?a = "takeWhile isspace s"
  let ?m = "dropWhile isspace s"
  let ?b = "rev (takeWhile isspace (rev ?m))"
  have "?m = rev (dropWhile isspace (rev ?m)) @ ?b"
    by (metis rev_append rev_rev_ident takeWhile_dropWhile_id)
  then have "?m = strip s @ ?b" by (simp add: strip_def lstrip_def rstrip_def)
  then have "s = ?a @ strip s @ ?b" by (metis takeWhile_dropWhile_id)
  moreover have "\<forall>c\<in>set ?a. isspace c" by (auto dest: set_takeWhileD)
  moreover have "\<forall>c\<in>set ?b. isspace c" by (auto dest: set_takeWhileD)
  ultimately show ?thesis by blast
qed

lemma strip_ends:
  assumes ne: "strip s \<noteq> []"
  shows "\<not> isspace (hd (strip s)) \<and> \<not> isspace (last (strip s))"
proof -
  have l: "strip s = dropWhile isspace (rstrip s)"
    using strip_commute [of s] by (simp add: strip_def lstrip_def)
  have "dropWhile isspace (rstrip s) \<noteq> []" using ne l by simp
  then have "\<not> isspace (hd (dropWhile isspace (rstrip s)))" by (rule hd_dropWhile)
  then have h: "\<not> isspace (hd (strip s))" using l by simp
  have r: "rev (strip s) = dropWhile isspace (rev (lstrip s))"
    by (simp add: strip_def rstrip_def)
  have "dropWhile isspace (rev (lstrip s)) \<noteq> []" using ne r by (metis rev_is_Nil_conv)
  then have "\<not> isspace (hd (dropWhile isspace (rev (lstrip s))))" by (rule hd_dropWhile)
  then have "\<not> isspace (hd (rev (strip s)))" using r by simp
  then have "\<not> isspace (last (strip s))" using ne by (simp add: hd_rev)
  with h show ?thesis by simp
qed

section \<open>The name normalizer: what it returns\<close>

lemma split_at_comma:
  assumes "comma \<in> set s"
  shows "s = takeWhile (\<lambda>c. c \<noteq> comma) s @ comma # tl (dropWhile (\<lambda>c. c \<noteq> comma) s)"
proof -
  have ne: "dropWhile (\<lambda>c. c \<noteq> comma) s \<noteq> []" using assms by simp
  then have "hd (dropWhile (\<lambda>c. c \<noteq> comma) s) = comma"
    using hd_dropWhile [of "\<lambda>c. c \<noteq> comma" s] by simp
  with ne have "dropWhile (\<lambda>c. c \<noteq> comma) s = comma # tl (dropWhile (\<lambda>c. c \<noteq> comma) s)"
    by (cases "dropWhile (\<lambda>c. c \<noteq> comma) s") simp_all
  then show ?thesis by (metis takeWhile_dropWhile_id)
qed

lemma strip_around_comma:
  "comma \<notin> set a \<Longrightarrow> strip (a @ comma # b) = lstrip a @ comma # rstrip b"
  by (simp add: strip_def lstrip_stop rstrip_stop comma_not_space)

lemma takeWhile_until_comma:
  "comma \<notin> set a \<Longrightarrow> takeWhile (\<lambda>c. c \<noteq> comma) (a @ comma # b) = a"
  by (simp add: takeWhile_append)

lemma dropWhile_until_comma:
  "comma \<notin> set a \<Longrightarrow> dropWhile (\<lambda>c. c \<noteq> comma) (a @ comma # b) = comma # b"
  by (simp add: dropWhile_append)

lemma normalize_comma:
  assumes "comma \<in> set s"
  shows "normalize_name (Str s) =
    Some (strip (tl (dropWhile (\<lambda>c. c \<noteq> comma) s)) @ '' ''
            @ strip (takeWhile (\<lambda>c. c \<noteq> comma) s))"
proof -
  define a where "a = takeWhile (\<lambda>c. c \<noteq> comma) s"
  define b where "b = tl (dropWhile (\<lambda>c. c \<noteq> comma) s)"
  have s: "s = a @ comma # b" unfolding a_def b_def using assms by (rule split_at_comma)
  have a: "comma \<notin> set a" unfolding a_def by (auto dest: set_takeWhileD)
  have la: "comma \<notin> set (lstrip a)" using a set_lstrip by blast
  have st: "strip s = lstrip a @ comma # rstrip b" using a by (simp add: s strip_around_comma)
  have "normalize_name (Str s) = Some (strip (rstrip b) @ '' '' @ strip (lstrip a))"
    using la by (simp add: normalize_name_def st split_comma1_def Let_def
        takeWhile_until_comma dropWhile_until_comma)
  then show ?thesis by (simp add: strip_lstrip strip_rstrip a_def b_def)
qed

lemma normalize_no_comma:
  assumes "comma \<notin> set s"
  shows "normalize_name (Str s) = Some (strip s)"
  using assms set_strip [of s] by (auto simp: normalize_name_def Let_def)

text \<open>
  C1. The name normalizer maps \<^verbatim>\<open>None\<close> and NaN to \<^verbatim>\<open>None\<close>. For every string with a
  comma it returns the trimmed part after the first comma, one space, and the trimmed
  part before the first comma. Every other string is returned trimmed. So
  \<^verbatim>\<open>'Erosa, Julian'\<close> and \<^verbatim>\<open>'Julian Erosa'\<close> both give \<^verbatim>\<open>'Julian Erosa'\<close>.
\<close>

theorem normalize_name_cases:
  "normalize_name PyNone = None \<and> normalize_name NaN = None \<and>
   (\<forall>s. comma \<in> set s \<longrightarrow>
      normalize_name (Str s) =
        Some (strip (tl (dropWhile (\<lambda>c. c \<noteq> comma) s)) @ '' ''
                @ strip (takeWhile (\<lambda>c. c \<noteq> comma) s))) \<and>
   (\<forall>s. comma \<notin> set s \<longrightarrow> normalize_name (Str s) = Some (strip s)) \<and>
   normalize_name (Str ''Erosa, Julian'') = Some ''Julian Erosa'' \<and>
   normalize_name (Str ''Julian Erosa'') = Some ''Julian Erosa''"
proof -
  have n1: "normalize_name PyNone = None" and n2: "normalize_name NaN = None"
    by (simp_all add: normalize_name_def)
  have e1: "normalize_name (Str ''Erosa, Julian'') = Some ''Julian Erosa''"
    by (simp add: normalize_name_def strip_def lstrip_def rstrip_def isspace_def
        split_comma1_def comma_def)
  have e2: "normalize_name (Str ''Julian Erosa'') = Some ''Julian Erosa''"
    by (simp add: normalize_name_def strip_def lstrip_def rstrip_def isspace_def
        split_comma1_def comma_def)
  show ?thesis
    using n1 n2 e1 e2 normalize_comma normalize_no_comma by blast
qed

theorem normalize_name_cases_witness:
  "comma \<in> set '' Silva , Anderson  '' \<and>
   normalize_name (Str '' Silva , Anderson  '') = Some ''Anderson Silva'' \<and>
   comma \<notin> set ''  Ann Lee '' \<and>
   normalize_name (Str ''  Ann Lee '') = Some ''Ann Lee''"
proof -
  have c1: "comma \<in> set '' Silva , Anderson  ''" by (simp add: comma_def)
  have c2: "comma \<notin> set ''  Ann Lee ''" by (simp add: comma_def)
  from normalize_name_cases have
    a: "\<forall>s. comma \<in> set s \<longrightarrow>
      normalize_name (Str s) =
        Some (strip (tl (dropWhile (\<lambda>c. c \<noteq> comma) s)) @ '' ''
                @ strip (takeWhile (\<lambda>c. c \<noteq> comma) s))"
    and b: "\<forall>s. comma \<notin> set s \<longrightarrow> normalize_name (Str s) = Some (strip s)"
    by blast+
  have "normalize_name (Str '' Silva , Anderson  '') = Some ''Anderson Silva''"
    using a [rule_format, OF c1]
    by (simp add: strip_def lstrip_def rstrip_def isspace_def comma_def)
  moreover have "normalize_name (Str ''  Ann Lee '') = Some ''Ann Lee''"
    using b [rule_format, OF c2]
    by (simp add: strip_def lstrip_def rstrip_def isspace_def)
  ultimately show ?thesis using c1 c2 by simp
qed

section \<open>The fighter summary: counts and percentages\<close>

lemma get0_incr: "get0 (incr d k) k' = (if k' = k then get0 d k + 1 else get0 d k')"
  by (simp add: get0_def incr_def update_conv')

lemma balanced_no_tallies: "balanced no_tallies"
  by (simp add: balanced_def no_tallies_def get0_def)

lemma balanced_count_win: "balanced t \<Longrightarrow> balanced (count_win f row t)"
  by (simp add: balanced_def count_win_def Let_def get0_incr)

lemma balanced_total_fights: "balanced (t\<lparr>total_fights := d\<rparr>) = balanced t"
  by (simp add: balanced_def)

lemma balanced_step: "balanced t \<Longrightarrow> balanced (summary_step t row)"
  by (auto simp: summary_step_def Let_def balanced_count_win balanced_total_fights
      split: option.splits)

lemma balanced_foldl: "balanced t \<Longrightarrow> balanced (foldl summary_step t rs)"
  by (induction rs arbitrary: t) (simp_all add: balanced_step)

lemma count_row_sum:
  assumes "balanced t"
  shows "row_wins_ko (count_row t x) + row_wins_sub (count_row t x)
           + row_wins_dec (count_row t x) + row_wins_dq (count_row t x)
           + row_wins_other (count_row t x) = row_total_wins (count_row t x)"
  using assms by (cases x) (simp_all add: count_row_def Let_def get_cell_def balanced_def)

lemma merge_left_parts:
  "r \<in> set (merge_left df_stats c) \<Longrightarrow> counts r = c \<and> percents r = pct_row c"
  by (auto simp: merge_left_def Let_def split: if_splits)

text \<open>Every row of the summary is the row of counts of some fighter, with its percentages.\<close>

lemma summary_rows:
  assumes "fighter_summary df_wt df_stats = Inr out" and "r \<in> set (rows out)"
  shows "\<exists>x. counts r = count_row (foldl summary_step no_tallies df_wt) x
              \<and> percents r = pct_row (counts r)"
  using assms
  by (auto simp: fighter_summary_def Let_def split: if_splits dest!: merge_left_parts)

text \<open>The function returns a table as soon as the statistics name one fighter.\<close>

lemma fighter_summary_returns:
  "df_stats \<noteq> [] \<Longrightarrow> \<exists>out. fighter_summary df_wt df_stats = Inr out"
  by (simp add: fighter_summary_def Let_def)

lemma normalize_john: "normalize_name (Str ''Doe, John'') = Some ''John Doe''"
  by (simp add: normalize_name_def strip_def lstrip_def rstrip_def isspace_def
      split_comma1_def comma_def)

lemma normalize_ann: "normalize_name (Str ''Ann Lee'') = Some ''Ann Lee''"
  by (simp add: normalize_name_def strip_def lstrip_def rstrip_def isspace_def
      split_comma1_def comma_def)

lemma result_code_W: "result_code (Str ''W'') = ''W''"
  by (simp add: result_code_def strip_def lstrip_def rstrip_def isspace_def upper_def
      upper_char_def)

lemma result_code_L: "result_code (Str ''L'') = ''L''"
  by (simp add: result_code_def strip_def lstrip_def rstrip_def isspace_def upper_def
      upper_char_def)

lemma example_tallies:
  "foldl summary_step no_tallies example_fights =
     \<lparr>total_fights = [(''John Doe'', 1), (''Ann Lee'', 1)], total_wins = [(''John Doe'', 1)],
      wins_ko = [(''John Doe'', 1)], wins_sub = [], wins_dec = [], wins_dq = [],
      wins_other = [], wins_round1 = []\<rparr>"
  by (simp add: example_fights_def ko_fight_def summary_step_def normalize_john normalize_ann result_code_W
      result_code_L no_tallies_def incr_def get0_def count_win_def Let_def)

lemma example_summary:
  "fighter_summary example_fights example_stats =
     Inr \<lparr>columns = summary_columns, rows = [ann_row, john_row, max_row]\<rparr>"
  by (simp add: fighter_summary_def example_tallies Let_def)
    (simp add: example_stats_def count_row_def get_cell_def get0_def merge_left_def pct_row_def
      pct_of_wins_def stats_subset_def ann_row_def john_row_def max_row_def Let_def)

text \<open>
  C10. In every row of the fighter summary the five counts of wins by method (KO/TKO,
  submission, decision, DQ, other) add up to the count of wins. Counting one win adds
  one to the wins and to one count by method, the one of the four named methods that
  the fight has, and to the count of other wins for any other method, a missing one
  included.
\<close>

theorem method_counts_sum_to_wins:
  "(\<forall>out. fighter_summary df_wt df_stats = Inr out \<longrightarrow>
      (\<forall>r\<in>set (rows out).
         row_wins_ko (counts r) + row_wins_sub (counts r) + row_wins_dec (counts r)
           + row_wins_dq (counts r) + row_wins_other (counts r) = row_total_wins (counts r))) \<and>
   (\<forall>f row t.
      total_wins (count_win f row t) = incr (total_wins t) f \<and>
      wins_ko (count_win f row t) =
        (if decision_group row = Str ''KO/TKO'' then incr (wins_ko t) f else wins_ko t) \<and>
      wins_sub (count_win f row t) =
        (if decision_group row = Str ''Submission'' then incr (wins_sub t) f else wins_sub t) \<and>
      wins_dec (count_win f row t) =
        (if decision_group row = Str ''Decision'' then incr (wins_dec t) f else wins_dec t) \<and>
      wins_dq (count_win f row t) =
        (if decision_group row = Str ''DQ'' then incr (wins_dq t) f else wins_dq t) \<and>
      wins_other (count_win f row t) =
        (if decision_group row \<in> {Str ''KO/TKO'', Str ''Submission'', Str ''Decision'', Str ''DQ''}
         then wins_other t else incr (wins_other t) f))"
proof (intro conjI allI impI ballI)
  fix out r
  assume out: "fighter_summary df_wt df_stats = Inr out" and r: "r \<in> set (rows out)"
  obtain x where "counts r = count_row (foldl summary_step no_tallies df_wt) x"
    using summary_rows [OF out r] by blast
  moreover have "balanced (foldl summary_step no_tallies df_wt)"
    by (rule balanced_foldl) (rule balanced_no_tallies)
  ultimately show "row_wins_ko (counts r) + row_wins_sub (counts r) + row_wins_dec (counts r)
      + row_wins_dq (counts r) + row_wins_other (counts r) = row_total_wins (counts r)"
    by (simp add: count_row_sum)
qed (simp_all add: count_win_def Let_def)

theorem method_counts_sum_to_wins_witness:
  "fighter_summary example_fights example_stats
     = Inr \<lparr>columns = summary_columns, rows = [ann_row, john_row, max_row]\<rparr> \<and>
   row_wins_ko (counts john_row) + row_wins_sub (counts john_row)
     + row_wins_dec (counts john_row) + row_wins_dq (counts john_row)
     + row_wins_other (counts john_row) = row_total_wins (counts john_row) \<and>
   row_total_wins (counts john_row) = 1 \<and> row_wins_ko (counts john_row) = 1"
proof -
  have "john_row \<in> set (rows \<lparr>columns = summary_columns, rows = [ann_row, john_row, max_row]\<rparr>)"
    by simp
  with method_counts_sum_to_wins [of example_fights example_stats] example_summary
  have "row_wins_ko (counts john_row) + row_wins_sub (counts john_row)
     + row_wins_dec (counts john_row) + row_wins_dq (counts john_row)
     + row_wins_other (counts john_row) = row_total_wins (counts john_row)"
    by blast
  then show ?thesis using example_summary by (simp add: john_row_def)
qed

text \<open>
  C5. In every row of the fighter summary the win percentage is the wins divided by the
  fights, times 100, when the fighter has a fight, and 0 when the fighter has none. Each
  percentage by method is the count by method divided by the wins, times 100, when the
  fighter has a win, and is missing when the fighter has none. A table whose statistics
  name a fighter is returned without an error.
\<close>

theorem summary_percentages:
  "(\<forall>out. fighter_summary df_wt df_stats = Inr out \<longrightarrow>
      (\<forall>r\<in>set (rows out).
         (0 < row_total_fights (counts r) \<longrightarrow>
            row_win_percent (counts r)
              = of_nat (row_total_wins (counts r)) / of_nat (row_total_fights (counts r)) * 100) \<and>
         (row_total_fights (counts r) = 0 \<longrightarrow> row_win_percent (counts r) = 0) \<and>
         (0 < row_total_wins (counts r) \<longrightarrow>
            wins_ko_pct (percents r)
              = Some (of_nat (row_wins_ko (counts r)) / of_nat (row_total_wins (counts r)) * 100) \<and>
            wins_sub_pct (percents r)
              = Some (of_nat (row_wins_sub (counts r)) / of_nat (row_total_wins (counts r)) * 100) \<and>
            wins_dec_pct (percents r)
              = Some (of_nat (row_wins_dec (counts r)) / of_nat (row_total_wins (counts r)) * 100) \<and>
            wins_dq_pct (percents r)
              = Some (of_nat (row_wins_dq (counts r)) / of_nat (row_total_wins (counts r)) * 100) \<and>
            wins_other_pct (percents r)
              = Some (of_nat (row_wins_other (counts r)) / of_nat (row_total_wins (counts r)) * 100) \<and>
            wins_round1_pct (percents r)
              = Some (of_nat (row_wins_round1 (counts r)) / of_nat (row_total_wins (counts r)) * 100)) \<and>
         (row_total_wins (counts r) = 0 \<longrightarrow>
            wins_ko_pct (percents r) = None \<and> wins_sub_pct (percents r) = None \<and>
            wins_dec_pct (percents r) = None \<and> wins_dq_pct (percents r) = None \<and>
            wins_other_pct (percents r) = None \<and> wins_round1_pct (percents r) = None))) \<and>
   (df_stats \<noteq> [] \<longrightarrow> (\<exists>out. fighter_summary df_wt df_stats = Inr out))"
proof (intro conjI allI impI ballI)
  fix out r
  assume out: "fighter_summary df_wt df_stats = Inr out" and r: "r \<in> set (rows out)"
  obtain x where c: "counts r = count_row (foldl summary_step no_tallies df_wt) x"
    and p: "percents r = pct_row (counts r)"
    using summary_rows [OF out r] by blast
  {
    assume "0 < row_total_fights (counts r)"
    then show "row_win_percent (counts r)
        = of_nat (row_total_wins (counts r)) / of_nat (row_total_fights (counts r)) * 100"
      by (simp add: c count_row_def Let_def split: if_splits)
  }
  {
    assume "row_total_fights (counts r) = 0"
    then show "row_win_percent (counts r) = 0"
      by (simp add: c count_row_def Let_def)
  }
  {
    assume w: "0 < row_total_wins (counts r)"
    show "wins_ko_pct (percents r)
        = Some (of_nat (row_wins_ko (counts r)) / of_nat (row_total_wins (counts r)) * 100)"
      using w by (simp add: p pct_row_def pct_of_wins_def)
    show "wins_sub_pct (percents r)
        = Some (of_nat (row_wins_sub (counts r)) / of_nat (row_total_wins (counts r)) * 100)"
      using w by (simp add: p pct_row_def pct_of_wins_def)
    show "wins_dec_pct (percents r)
        = Some (of_nat (row_wins_dec (counts r)) / of_nat (row_total_wins (counts r)) * 100)"
      using w by (simp add: p pct_row_def pct_of_wins_def)
    show "wins_dq_pct (percents r)
        = Some (of_nat (row_wins_dq (counts r)) / of_nat (row_total_wins (counts r)) * 100)"
      using w by (simp add: p pct_row_def pct_of_wins_def)
    show "wins_other_pct (percents r)
        = Some (of_nat (row_wins_other (counts r)) / of_nat (row_total_wins (counts r)) * 100)"
      using w by (simp add: p pct_row_def pct_of_wins_def)
    show "wins_round1_pct (percents r)
        = Some (of_nat (row_wins_round1 (counts r)) / of_nat (row_total_wins (counts r)) * 100)"
      using w by (simp add: p pct_row_def pct_of_wins_def)
  }
  {
    assume w: "row_total_wins (counts r) = 0"
    show "wins_ko_pct (percents r) = None" using w by (simp add: p pct_row_def pct_of_wins_def)
    show "wins_sub_pct (percents r) = None" using w by (simp add: p pct_row_def pct_of_wins_def)
    show "wins_dec_pct (percents r) = None" using w by (simp add: p pct_row_def pct_of_wins_def)
    show "wins_dq_pct (percents r) = None" using w by (simp add: p pct_row_def pct_of_wins_def)
    show "wins_other_pct (percents r) = None" using w by (simp add: p pct_row_def pct_of_wins_def)
    show "wins_round1_pct (percents r) = None"
      using w by (simp add: p pct_row_def pct_of_wins_def)
  }
next
  assume "df_stats \<noteq> []"
  then show "\<exists>out. fighter_summary df_wt df_stats = Inr out"
    by (rule fighter_summary_returns)
qed

theorem summary_percentages_witness:
  "fighter_summary example_fights example_stats
     = Inr \<lparr>columns = summary_columns, rows = [ann_row, john_row, max_row]\<rparr> \<and>
   row_total_fights (counts max_row) = 0 \<and> row_win_percent (counts max_row) = 0 \<and>
   row_total_wins (counts ann_row) = 0 \<and> wins_ko_pct (percents ann_row) = None \<and>
   0 < row_total_fights (counts john_row) \<and> row_win_percent (counts john_row) = 100 \<and>
   0 < row_total_wins (counts john_row) \<and> wins_ko_pct (percents john_row) = Some 100 \<and>
   wins_dec_pct (percents john_row) = Some 0"
proof -
  let ?out = "\<lparr>columns = summary_columns, rows = [ann_row, john_row, max_row]\<rparr>"
  have rows: "\<forall>r\<in>set (rows ?out).
         (0 < row_total_fights (counts r) \<longrightarrow>
            row_win_percent (counts r)
              = of_nat (row_total_wins (counts r)) / of_nat (row_total_fights (counts r)) * 100) \<and>
         (row_total_fights (counts r) = 0 \<longrightarrow> row_win_percent (counts r) = 0) \<and>
         (0 < row_total_wins (counts r) \<longrightarrow>
            wins_ko_pct (percents r)
              = Some (of_nat (row_wins_ko (counts r)) / of_nat (row_total_wins (counts r)) * 100) \<and>
            wins_dec_pct (percents r)
              = Some (of_nat (row_wins_dec (counts r)) / of_nat (row_total_wins (counts r)) * 100)) \<and>
         (row_total_wins (counts r) = 0 \<longrightarrow> wins_ko_pct (percents r) = None)"
    using summary_percentages [of example_fights example_stats] example_summary by blast
  have m: "row_total_fights (counts max_row) = 0" by (simp add: max_row_def)
  have a: "row_total_wins (counts ann_row) = 0" by (simp add: ann_row_def)
  have j: "0 < row_total_fights (counts john_row)" "0 < row_total_wins (counts john_row)"
    by (simp_all add: john_row_def)
  have "row_win_percent (counts max_row) = 0" using rows m by simp
  moreover have "wins_ko_pct (percents ann_row) = None" using rows a by simp
  moreover have "row_win_percent (counts john_row) = 100"
    using rows j(1) by (simp add: john_row_def)
  moreover have "wins_ko_pct (percents john_row) = Some 100"
    and "wins_dec_pct (percents john_row) = Some 0"
    using rows j(2) by (simp_all add: john_row_def)
  ultimately show ?thesis using example_summary m a j by simp
qed

section \<open>Who is credited with a win\<close>

lemma step_total_wins:
  "total_wins (summary_step t row) =
     (case credited row of Some f \<Rightarrow> incr (total_wins t) f | None \<Rightarrow> total_wins t)"
  by (auto simp: summary_step_def credited_def count_win_def Let_def split: option.splits)

lemma foldl_total_wins:
  "get0 (total_wins (foldl summary_step t rs)) f =
     get0 (total_wins t) f + length (filter (\<lambda>r. credited r = Some f) rs)"
  by (induction rs arbitrary: t) (auto simp: step_total_wins get0_incr split: option.splits)

lemma tally_sum_update:
  "sum_list (map snd (AList.update k (Suc (case map_of d k of None \<Rightarrow> 0 | Some n \<Rightarrow> n)) d)) = Suc (sum_list (map snd d))"
  by (induction d) auto

lemma tally_sum_incr: "tally_sum (incr d k) = tally_sum d + 1"
  by (simp add: tally_sum_def incr_def get0_def tally_sum_update)

lemma sum_list_insort_key: "sum_list (map g (insort_key k x xs)) = g x + sum_list (map g xs)"
  for g :: "'a \<Rightarrow> nat"
  by (induction xs) auto

lemma sum_list_sort_key: "sum_list (map g (sort_key k xs)) = sum_list (map g xs)"
  for g :: "'a \<Rightarrow> nat"
  by (induction xs) (auto simp: sum_list_insort_key)

lemma count_list_filter_if:
  "count_list (filter P xs) x = (if P x then count_list xs x else 0)"
  by (induction xs) auto

lemma count_sum_filter:
  "sum_list (map (count_list ks) (filter P (remdups ks))) = length (filter P ks)"
proof -
  have "sum_list (map (count_list ks) (filter P (remdups ks)))
      = sum (count_list ks) (set (filter P (remdups ks)))"
    by (rule sum_list_distinct_conv_sum_set) simp
  also have "\<dots> = sum (count_list (filter P ks)) (set (filter P ks))"
    by (rule sum.cong) (auto simp: count_list_filter_if)
  also have "\<dots> = length (filter P ks)"
    by (rule sum_count_set) simp_all
  finally show ?thesis .
qed

lemma length_filter_concat:
  "length (filter P (concat (map g xs))) = sum_list (map (\<lambda>x. length (filter P (g x))) xs)"
  by (induction xs) auto

lemma length_filter_sum: "length (filter Q xs) = sum_list (map (\<lambda>x. if Q x then 1 else 0) xs)"
  by (induction xs) auto

lemma present_records_concat:
  "present_records (concat xss) = concat (map present_records xss)"
  by (induction xss) (auto simp: present_records_def)

lemma value_counts_sum:
  "sum_list (map (\<lambda>(n, w, m, c). c) (filter (\<lambda>(n, w, m, c). n = f) (frame_value_counts recs)))
     = length (filter (\<lambda>(n, w, m). n = f) (present_records recs))"
proof -
  let ?ks = "present_records recs"
  have "filter (\<lambda>(n, w, m, c). n = f) (frame_value_counts recs)
      = sort_key (\<lambda>(n, w, m, c). - int c)
          (map (\<lambda>(n, w, m). (n, w, m, count_list ?ks (n, w, m)))
             (filter (\<lambda>(n, w, m). n = f) (remdups ?ks)))"
    by (simp add: frame_value_counts_def Let_def filter_sort filter_map o_def split_def)
  then have "sum_list (map (\<lambda>(n, w, m, c). c) (filter (\<lambda>(n, w, m, c). n = f) (frame_value_counts recs)))
      = sum_list (map (count_list ?ks) (filter (\<lambda>(n, w, m). n = f) (remdups ?ks)))"
    by (simp add: sum_list_sort_key o_def split_def)
  then show ?thesis by (simp add: count_sum_filter)
qed

lemma category_wins_length:
  "category_wins df_wt f
     = length (filter (\<lambda>(n, w, m). n = f) (present_records (concat (map win_record df_wt))))"
  by (simp add: category_wins_def fighter_wins_by_category_and_method_def Let_def value_counts_sum)
    (simp add: present_records_def)

lemma summary_wins_length:
  "summary_wins df_wt f = length (filter (\<lambda>r. credited r = Some f) df_wt)"
  by (simp add: summary_wins_def foldl_total_wins) (simp add: no_tallies_def get0_def)

lemma normalize_empty: "normalize_name (Str []) = Some []"
  by (simp add: normalize_name_def strip_def lstrip_def rstrip_def comma_def)

lemma truthy_redundant:
  "(if truthy c
    then (case normalize_name c of Some n \<Rightarrow> if n \<noteq> [] then X n else [] | None \<Rightarrow> [])
    else [])
   = (case normalize_name c of Some n \<Rightarrow> if n \<noteq> [] then X n else [] | None \<Rightarrow> [])"
proof (cases c)
  case PyNone
  then show ?thesis by (simp add: normalize_name_def)
next
  case NaN
  then show ?thesis by simp
next
  case (Str s)
  then show ?thesis by (cases "s = []") (simp_all add: normalize_empty)
qed

lemma win_record_winner:
  "win_record row =
     (case normalize_name (winner_cell row) of
        Some n \<Rightarrow> if n \<noteq> [] then [(n, wtClass row, decision_group row)] else []
      | None \<Rightarrow> [])"
  unfolding win_record_def Let_def winner_cell_def [symmetric]
  by (rule truthy_redundant)

lemma present_single:
  "present_records [(n, w, m)] = (case (w, m) of (Str a, Str b) \<Rightarrow> [(n, a, b)] | _ \<Rightarrow> [])"
  by (simp add: present_records_def split: cell.splits)

lemma present_nil: "present_records [] = []"
  by (simp add: present_records_def)

lemma length_present_single:
  "length (filter (\<lambda>(n, w, m). n = f) (present_records [(n', w', m')]))
     = (if n' = f \<and> notna w' \<and> notna m' then 1 else 0)"
  by (cases w'; cases m') (simp_all add: present_single)

lemma win_record_count:
  "length (filter (\<lambda>(n, w, m). n = f) (present_records (win_record row)))
     = (if normalize_name (winner_cell row) = Some f \<and> f \<noteq> [] \<and> notna (wtClass row)
          \<and> notna (decision_group row) then 1 else 0)"
proof (cases "normalize_name (winner_cell row)")
  case None
  then show ?thesis by (simp add: win_record_winner present_nil)
next
  case (Some n)
  then show ?thesis
    by (cases "n = []") (auto simp add: win_record_winner present_nil length_present_single)
qed

lemma winner_credited:
  "normalize_name (winner_cell row) = Some f \<Longrightarrow> credited row = Some f"
  by (auto simp: winner_cell_def credited_def normalize_name_def split: if_splits)

lemma win_record_le:
  "length (filter (\<lambda>(n, w, m). n = f) (present_records (win_record row)))
     \<le> (if credited row = Some f then 1 else 0)"
  by (simp add: win_record_count winner_credited)

lemma credited_winner:
  assumes "result_code (p1_result row) = ''W'' \<and> result_code (p2_result row) = ''W''
         \<longrightarrow> normalize_name (p1_name row) \<noteq> None"
  shows "normalize_name (winner_cell row) = credited row"
  using assms by (auto simp: winner_cell_def credited_def normalize_name_def split: option.splits)

lemma win_record_eq:
  assumes "countable_win row" and "f \<noteq> []"
  shows "length (filter (\<lambda>(n, w, m). n = f) (present_records (win_record row)))
     = (if credited row = Some f then 1 else 0)"
proof -
  have c: "normalize_name (winner_cell row) = credited row"
    using assms(1) by (intro credited_winner) (simp add: countable_win_def)
  show ?thesis
  proof (cases "credited row = Some f")
    case True
    then have "win_record row \<noteq> []" using assms(2) c by (simp add: win_record_winner)
    then have "notna (wtClass row) \<and> notna (decision_group row)"
      using assms(1) by (simp add: countable_win_def)
    then show ?thesis using True c assms(2) by (simp add: win_record_count)
  next
    case False
    then show ?thesis using c by (simp add: win_record_count)
  qed
qed

lemma wins_le: "category_wins df_wt f \<le> summary_wins df_wt f"
proof -
  have "category_wins df_wt f
      = sum_list (map (\<lambda>row. length (filter (\<lambda>(n, w, m). n = f)
                                  (present_records (win_record row)))) df_wt)"
    by (simp add: category_wins_length present_records_concat length_filter_concat o_def)
  also have "\<dots> \<le> sum_list (map (\<lambda>r. if credited r = Some f then 1 else 0) df_wt)"
    by (rule sum_list_mono) (rule win_record_le)
  also have "\<dots> = summary_wins df_wt f"
    by (simp add: summary_wins_length length_filter_sum [of "\<lambda>r. credited r = Some f"])
  finally show ?thesis .
qed

lemma wins_eq:
  assumes "\<forall>r\<in>set df_wt. countable_win r" and "f \<noteq> []"
  shows "category_wins df_wt f = summary_wins df_wt f"
proof -
  have "category_wins df_wt f
      = sum_list (map (\<lambda>row. length (filter (\<lambda>(n, w, m). n = f)
                                  (present_records (win_record row)))) df_wt)"
    by (simp add: category_wins_length present_records_concat length_filter_concat o_def)
  also have "\<dots> = sum_list (map (\<lambda>r. if credited r = Some f then 1 else 0) df_wt)"
    by (rule arg_cong [where f = sum_list], rule map_cong) (simp_all add: assms win_record_eq)
  also have "\<dots> = summary_wins df_wt f"
    by (simp add: summary_wins_length length_filter_sum [of "\<lambda>r. credited r = Some f"])
  finally show ?thesis .
qed

lemma tally_sum_count_win:
  "tally_sum (total_wins (count_win f row t)) = tally_sum (total_wins t) + 1"
  "tally_sum (wins_ko (count_win f row t)) \<le> tally_sum (wins_ko t) + 1"
  "tally_sum (wins_sub (count_win f row t)) \<le> tally_sum (wins_sub t) + 1"
  "tally_sum (wins_dec (count_win f row t)) \<le> tally_sum (wins_dec t) + 1"
  "tally_sum (wins_dq (count_win f row t)) \<le> tally_sum (wins_dq t) + 1"
  "tally_sum (wins_other (count_win f row t)) \<le> tally_sum (wins_other t) + 1"
  "tally_sum (wins_round1 (count_win f row t)) \<le> tally_sum (wins_round1 t) + 1"
  by (simp_all add: count_win_def Let_def tally_sum_incr)

lemma tally_sum_step:
  "tally_sum (total_wins (summary_step t row)) \<le> tally_sum (total_wins t) + 1"
  "tally_sum (wins_ko (summary_step t row)) \<le> tally_sum (wins_ko t) + 1"
  "tally_sum (wins_sub (summary_step t row)) \<le> tally_sum (wins_sub t) + 1"
  "tally_sum (wins_dec (summary_step t row)) \<le> tally_sum (wins_dec t) + 1"
  "tally_sum (wins_dq (summary_step t row)) \<le> tally_sum (wins_dq t) + 1"
  "tally_sum (wins_other (summary_step t row)) \<le> tally_sum (wins_other t) + 1"
  "tally_sum (wins_round1 (summary_step t row)) \<le> tally_sum (wins_round1 t) + 1"
  using tally_sum_count_win [of _ row "t\<lparr>total_fights := _\<rparr>"] tally_sum_count_win [of _ row t]
  by (auto simp: summary_step_def Let_def split: option.splits)

lemma length_win_record: "length (win_record row) \<le> 1"
  by (simp add: win_record_winner split: option.splits)

lemma both_W_summary:
  assumes "result_code (p1_result row) = ''W''" and "result_code (p2_result row) = ''W''"
  shows "total_wins (summary_step t row) =
     (case normalize_name (p1_name row) of
        Some f1 \<Rightarrow> incr (total_wins t) f1
      | None \<Rightarrow>
          (case normalize_name (p2_name row) of
             Some f2 \<Rightarrow> incr (total_wins t) f2
           | None \<Rightarrow> total_wins t))"
  using assms by (simp add: step_total_wins credited_def split: option.splits)

lemma both_W_record:
  assumes "result_code (p1_result row) = ''W''"
  shows "win_record row =
     (case normalize_name (p1_name row) of
        Some f1 \<Rightarrow> if f1 \<noteq> [] then [(f1, wtClass row, decision_group row)] else []
      | None \<Rightarrow> [])"
  using assms by (simp add: win_record_winner winner_cell_def)

lemma result_codes_both_W:
  "result_code (p1_result both_W_fight) = ''W''"
  "result_code (p2_result both_W_fight) = ''W''"
  "result_code (p1_result both_W_unnamed_fight) = ''W''"
  "result_code (p2_result both_W_unnamed_fight) = ''W''"
  by (simp_all add: both_W_fight_def both_W_unnamed_fight_def result_code_W)

text \<open>
  C2, as the code has it. When both results of a fight are \<^verbatim>\<open>W\<close>, \<^verbatim>\<open>fighter_summary\<close>
  credits side 1 if its name is present, otherwise side 2 if its name is present,
  otherwise nobody, and \<^verbatim>\<open>fighter_wins_by_category_and_method\<close> looks at side 1 only.
  No fight adds more than one win to any tally or more than one record of a win.
\<close>

theorem both_W_at_most_one_side:
  "(result_code (p1_result row) = ''W'' \<and> result_code (p2_result row) = ''W'' \<longrightarrow>
      total_wins (summary_step t row) =
        (case normalize_name (p1_name row) of
           Some f1 \<Rightarrow> incr (total_wins t) f1
         | None \<Rightarrow>
             (case normalize_name (p2_name row) of
                Some f2 \<Rightarrow> incr (total_wins t) f2
              | None \<Rightarrow> total_wins t)) \<and>
      win_record row =
        (case normalize_name (p1_name row) of
           Some f1 \<Rightarrow> if f1 \<noteq> [] then [(f1, wtClass row, decision_group row)] else []
         | None \<Rightarrow> [])) \<and>
   tally_sum (total_wins (summary_step t row)) \<le> tally_sum (total_wins t) + 1 \<and>
   tally_sum (wins_ko (summary_step t row)) \<le> tally_sum (wins_ko t) + 1 \<and>
   tally_sum (wins_sub (summary_step t row)) \<le> tally_sum (wins_sub t) + 1 \<and>
   tally_sum (wins_dec (summary_step t row)) \<le> tally_sum (wins_dec t) + 1 \<and>
   tally_sum (wins_dq (summary_step t row)) \<le> tally_sum (wins_dq t) + 1 \<and>
   tally_sum (wins_other (summary_step t row)) \<le> tally_sum (wins_other t) + 1 \<and>
   tally_sum (wins_round1 (summary_step t row)) \<le> tally_sum (wins_round1 t) + 1 \<and>
   length (win_record row) \<le> 1"
  using both_W_summary [of row t] both_W_record [of row] tally_sum_step [of t row]
    length_win_record [of row]
  by blast

theorem both_W_at_most_one_side_witness:
  "result_code (p1_result both_W_fight) = ''W'' \<and> result_code (p2_result both_W_fight) = ''W'' \<and>
   total_wins (summary_step no_tallies both_W_fight) = [(''John Doe'', 1)] \<and>
   win_record both_W_fight = [(''John Doe'', Str ''Lightweight'', Str ''Decision'')]"
proof -
  have "total_wins (summary_step no_tallies both_W_fight) =
        (case normalize_name (p1_name both_W_fight) of
           Some f1 \<Rightarrow> incr (total_wins no_tallies) f1
         | None \<Rightarrow>
             (case normalize_name (p2_name both_W_fight) of
                Some f2 \<Rightarrow> incr (total_wins no_tallies) f2
              | None \<Rightarrow> total_wins no_tallies)) \<and>
      win_record both_W_fight =
        (case normalize_name (p1_name both_W_fight) of
           Some f1 \<Rightarrow>
             if f1 \<noteq> [] then [(f1, wtClass both_W_fight, decision_group both_W_fight)] else []
         | None \<Rightarrow> [])"
    using both_W_at_most_one_side [of both_W_fight no_tallies] result_codes_both_W by blast
  moreover have "normalize_name (p1_name both_W_fight) = Some ''John Doe''"
    by (simp add: both_W_fight_def normalize_john)
  ultimately show ?thesis
    using result_codes_both_W
    by (simp add: no_tallies_def incr_def get0_def) (simp add: both_W_fight_def)
qed

lemma unnamed_names:
  "normalize_name (p1_name both_W_unnamed_fight) = None"
  "normalize_name (p2_name both_W_unnamed_fight) = Some ''Ann Lee''"
  by (simp_all add: both_W_unnamed_fight_def normalize_ann) (simp add: normalize_name_def)

lemma unnamed_step_wins:
  "total_wins (summary_step no_tallies both_W_unnamed_fight) = [(''Ann Lee'', 1)]"
  using unnamed_names result_codes_both_W
  by (simp add: summary_step_def count_win_def Let_def no_tallies_def incr_def get0_def)

lemma unnamed_win_record: "win_record both_W_unnamed_fight = []"
  using unnamed_names result_codes_both_W
  by (simp add: win_record_def Let_def)

text \<open>
  Both results are \<^verbatim>\<open>W\<close> and the name of side 1 is missing: \<^verbatim>\<open>fighter_summary\<close> counts
  side 2 as the winner.
\<close>

theorem both_W_side_2_counted:
  "result_code (p1_result both_W_unnamed_fight) = ''W'' \<and>
   result_code (p2_result both_W_unnamed_fight) = ''W'' \<and>
   normalize_name (p1_name both_W_unnamed_fight) = None \<and>
   normalize_name (p2_name both_W_unnamed_fight) = Some ''Ann Lee'' \<and>
   total_wins (summary_step no_tallies both_W_unnamed_fight) = [(''Ann Lee'', 1)] \<and>
   win_record both_W_unnamed_fight = []"
  using unnamed_names result_codes_both_W unnamed_step_wins unnamed_win_record by simp

section \<open>The wins of the summary and the wins by category\<close>

lemma summary_row_wins:
  assumes "fighter_summary df_wt df_stats = Inr out" and "r \<in> set (rows out)"
    and "row_fighter_name (counts r) = Str f"
  shows "row_total_wins (counts r) = summary_wins df_wt f"
proof -
  obtain x where c: "counts r = count_row (foldl summary_step no_tallies df_wt) x"
    using summary_rows [OF assms(1,2)] by blast
  then have "x = Str f" using assms(3) by (simp add: count_row_def Let_def)
  then show ?thesis by (simp add: c count_row_def Let_def get_cell_def summary_wins_def)
qed

lemma countable_example: "\<forall>r\<in>set example_fights. countable_win r"
  by (simp add: example_fights_def ko_fight_def countable_win_def result_code_W result_code_L)

text \<open>
  C3, as the code has it. For every fighter the wins by category never exceed the wins
  of the summary. They are equal for every fighter with a name that is not empty when
  every fight that records a win has its weight class and its method, and no fight has
  both results \<^verbatim>\<open>W\<close> with the name of side 1 missing. The wins of the summary are the
  column \<^verbatim>\<open>total_wins\<close> of the fighter's rows.
\<close>

theorem wins_by_category_agree:
  "category_wins df_wt f \<le> summary_wins df_wt f \<and>
   ((\<forall>r\<in>set df_wt. countable_win r) \<and> f \<noteq> []
      \<longrightarrow> category_wins df_wt f = summary_wins df_wt f) \<and>
   (\<forall>out. fighter_summary df_wt df_stats = Inr out \<longrightarrow>
      (\<forall>r\<in>set (rows out).
         row_fighter_name (counts r) = Str f \<longrightarrow> row_total_wins (counts r) = summary_wins df_wt f))"
  using wins_le [of df_wt f] wins_eq [of df_wt f] summary_row_wins [of df_wt df_stats _ _ f]
  by blast

theorem wins_by_category_agree_witness:
  "countable_win (hd example_fights) \<and>
   category_wins example_fights ''John Doe'' = summary_wins example_fights ''John Doe'' \<and>
   summary_wins example_fights ''John Doe'' = 1 \<and>
   row_total_wins (counts john_row) = summary_wins example_fights ''John Doe''"
proof -
  have ne: "''John Doe'' \<noteq> []" by simp
  have eq: "category_wins example_fights ''John Doe'' = summary_wins example_fights ''John Doe''"
    using wins_by_category_agree [of example_fights "''John Doe''"] countable_example ne
    by blast
  have "john_row \<in> set (rows \<lparr>columns = summary_columns, rows = [ann_row, john_row, max_row]\<rparr>)"
    by simp
  moreover have "row_fighter_name (counts john_row) = Str ''John Doe''"
    by (simp add: john_row_def)
  ultimately have "row_total_wins (counts john_row) = summary_wins example_fights ''John Doe''"
    using wins_by_category_agree [of example_fights "''John Doe''" example_stats] example_summary
    by blast
  moreover have "summary_wins example_fights ''John Doe'' = 1"
    by (simp add: summary_wins_def example_tallies get0_def)
  ultimately show ?thesis using eq countable_example by (simp add: example_fights_def ko_fight_def)
qed

text \<open>
  A win whose method is missing is counted by the summary and dropped from the wins by
  category; so is the win of side 2 when both results are \<^verbatim>\<open>W\<close> and side 1 has no name.
\<close>

theorem wins_by_category_differ:
  "summary_wins [fight_without_method] ''John Doe'' = 1 \<and>
   category_wins [fight_without_method] ''John Doe'' = 0 \<and>
   rows (fighter_wins_by_category_and_method [fight_without_method]) = [] \<and>
   summary_wins [both_W_unnamed_fight] ''Ann Lee'' = 1 \<and>
   category_wins [both_W_unnamed_fight] ''Ann Lee'' = 0"
proof -
  have r: "win_record fight_without_method = [(''John Doe'', Str ''Lightweight'', NaN)]"
    by (simp add: win_record_def Let_def fight_without_method_def result_code_W normalize_john)
  have "rows (fighter_wins_by_category_and_method [fight_without_method]) = []"
    by (simp add: fighter_wins_by_category_and_method_def r frame_value_counts_def
        present_records_def)
  moreover have "rows (fighter_wins_by_category_and_method [both_W_unnamed_fight]) = []"
    by (simp add: fighter_wins_by_category_and_method_def unnamed_win_record)
  moreover have "summary_wins [fight_without_method] ''John Doe'' = 1"
    by (simp add: summary_wins_def summary_step_def count_win_def Let_def no_tallies_def
        incr_def get0_def fight_without_method_def result_code_W result_code_L normalize_john
        normalize_ann)
  moreover have "summary_wins [both_W_unnamed_fight] ''Ann Lee'' = 1"
    by (simp add: summary_wins_def unnamed_step_wins get0_def)
  ultimately show ?thesis by (simp add: category_wins_def)
qed

section \<open>The distribution of methods\<close>

lemma count_present_methods:
  "count_list (present_methods df_wt) m = length (filter (\<lambda>r. decision_group r = Str m) df_wt)"
  by (induction df_wt) (auto simp: present_methods_def split: cell.splits)

lemma length_present_methods:
  "length (present_methods df_wt) = length (filter (\<lambda>r. notna (decision_group r)) df_wt)"
  by (induction df_wt) (auto simp: present_methods_def split: cell.splits)

lemma set_present_methods:
  "m \<in> set (present_methods df_wt) \<longleftrightarrow> (\<exists>r\<in>set df_wt. decision_group r = Str m)"
  by (induction df_wt) (auto simp: present_methods_def split: cell.splits)

lemma count_list_pos: "x \<in> set xs \<Longrightarrow> 0 < count_list xs x"
  by (induction xs) auto

lemma count_sum_all: "sum_list (map (count_list ks) (remdups ks)) = length ks"
  using count_sum_filter [of ks "\<lambda>_. True"] by simp

lemma value_counts_total:
  "sum_list (map snd (series_value_counts (map decision_group df_wt)))
     = length (present_methods df_wt)"
  by (simp add: series_value_counts_def Let_def sum_list_sort_key o_def count_sum_all
      present_methods_def)

lemma value_counts_set:
  "set (series_value_counts (map decision_group df_wt))
     = (\<lambda>v. (v, count_list (present_methods df_wt) v)) ` set (present_methods df_wt)"
  by (simp add: series_value_counts_def Let_def present_methods_def)

lemma method_rows_set:
  "set (rows (win_percentages_by_method df_wt))
     = (\<lambda>v. (v, count_list (present_methods df_wt) v,
              of_nat (count_list (present_methods df_wt) v)
                / of_nat (length (present_methods df_wt)) * 100)) ` set (present_methods df_wt)"
  by (simp add: win_percentages_by_method_def Let_def value_counts_total value_counts_set
      image_image)

lemma method_row:
  assumes "(m, q, p) \<in> set (rows (win_percentages_by_method df_wt))"
  shows "q = length (filter (\<lambda>r. decision_group r = Str m) df_wt) \<and> 0 < q \<and>
     p = of_nat q / of_nat (length (filter (\<lambda>r. notna (decision_group r)) df_wt)) * 100"
proof -
  from assms have m: "m \<in> set (present_methods df_wt)"
    and q: "q = count_list (present_methods df_wt) m"
    and p: "p = of_nat q / of_nat (length (present_methods df_wt)) * 100"
    by (auto simp: method_rows_set)
  from m have "0 < count_list (present_methods df_wt) m" by (rule count_list_pos)
  then show ?thesis using q p by (simp add: count_present_methods length_present_methods)
qed

lemma method_row_exists:
  assumes "r \<in> set df_wt" and "decision_group r = Str m"
  shows "\<exists>q p. (m, q, p) \<in> set (rows (win_percentages_by_method df_wt))"
proof -
  have "m \<in> set (present_methods df_wt)" using assms by (auto simp: set_present_methods)
  then show ?thesis by (auto simp: method_rows_set)
qed

lemma all_notna_filter: "\<forall>r\<in>set df_wt. P r \<Longrightarrow> filter P df_wt = df_wt"
  by simp

lemma method_rows_example:
  "rows (win_percentages_by_method method_fights)
     = [(''KO/TKO'', 1, 100 / 3), (''Decision'', 1, 100 / 3), (''Submission'', 1, 100 / 3)]"
  by (simp add: win_percentages_by_method_def series_value_counts_def method_fights_def
      ko_fight_def decision_fight_def fly_fight_def)

text \<open>
  C6, as the code has it. In the table of \<^verbatim>\<open>win_percentages_by_method\<close> every row has
  the count of the fights with its method, and its percentage is this count divided by
  the number of fights whose method is present, times 100. That number is the number
  of all fights when no method is missing. Every method that occurs has a row.
\<close>

theorem method_percentages:
  "(\<forall>m q p. (m, q, p) \<in> set (rows (win_percentages_by_method df_wt)) \<longrightarrow>
      q = length (filter (\<lambda>r. decision_group r = Str m) df_wt) \<and> 0 < q \<and>
      p = of_nat q / of_nat (length (filter (\<lambda>r. notna (decision_group r)) df_wt)) * 100) \<and>
   ((\<forall>r\<in>set df_wt. notna (decision_group r)) \<longrightarrow>
      (\<forall>m q p. (m, q, p) \<in> set (rows (win_percentages_by_method df_wt)) \<longrightarrow>
         p = of_nat q / of_nat (length df_wt) * 100)) \<and>
   (\<forall>r\<in>set df_wt. \<forall>m. decision_group r = Str m \<longrightarrow>
      (\<exists>q p. (m, q, p) \<in> set (rows (win_percentages_by_method df_wt))))"
proof (intro conjI allI impI ballI)
  fix m q p
  assume "(m, q, p) \<in> set (rows (win_percentages_by_method df_wt))"
  then show "q = length (filter (\<lambda>r. decision_group r = Str m) df_wt)" and "0 < q"
    and "p = of_nat q / of_nat (length (filter (\<lambda>r. notna (decision_group r)) df_wt)) * 100"
    using method_row by blast+
next
  fix m q p
  assume "\<forall>r\<in>set df_wt. notna (decision_group r)"
    and "(m, q, p) \<in> set (rows (win_percentages_by_method df_wt))"
  then show "p = of_nat q / of_nat (length df_wt) * 100"
    using method_row [of m q p df_wt] by (simp add: all_notna_filter)
next
  fix r m
  assume "r \<in> set df_wt" and "decision_group r = Str m"
  then show "\<exists>q p. (m, q, p) \<in> set (rows (win_percentages_by_method df_wt))"
    by (rule method_row_exists)
qed

theorem method_percentages_witness:
  "(''KO/TKO'', 1, 100 / 3) \<in> set (rows (win_percentages_by_method method_fights)) \<and>
   length (filter (\<lambda>r. decision_group r = Str ''KO/TKO'') method_fights) = 1 \<and>
   length method_fights = 3 \<and>
   notna (decision_group ko_fight) \<and> notna (decision_group decision_fight) \<and>
   notna (decision_group fly_fight) \<and>
   (100 / 3 :: rat) = of_nat 1 / of_nat (length method_fights) * 100"
proof -
  have r: "(''KO/TKO'', 1, 100 / 3) \<in> set (rows (win_percentages_by_method method_fights))"
    by (simp add: method_rows_example)
  have n: "\<forall>r\<in>set method_fights. notna (decision_group r)"
    by (simp add: method_fights_def ko_fight_def decision_fight_def fly_fight_def)
  have "(1::nat) = length (filter (\<lambda>r. decision_group r = Str ''KO/TKO'') method_fights)"
    using method_percentages [of method_fights] r by blast
  moreover have "(100 / 3 :: rat) = of_nat 1 / of_nat (length method_fights) * 100"
    using method_percentages [of method_fights] r n by blast
  ultimately show ?thesis
    using r n by (simp add: method_fights_def)
qed

text \<open>
  Two fights, one with its method missing: the one row has 100 percent, not the count
  divided by the number of all fights.
\<close>

theorem method_percentage_of_present:
  "rows (win_percentages_by_method missing_method_fights) = [(''KO/TKO'', 1, 100)] \<and>
   length missing_method_fights = 2 \<and>
   (100 :: rat) \<noteq> of_nat 1 / of_nat (length missing_method_fights) * 100"
  by (simp add: win_percentages_by_method_def series_value_counts_def missing_method_fights_def
      ko_fight_def fight_without_method_def)

section \<open>The distribution of methods by weight class\<close>

















lemma class_rows_example:
  "rows (win_percentages_by_weight_and_method exact method_fights)
     = [(''Flyweight'', ''Submission'', 1, 100), (''Lightweight'', ''Decision'', 1, 50),
        (''Lightweight'', ''KO/TKO'', 1, 50)]"
  by (simp add: win_percentages_by_weight_and_method_def groupby_size_def group_keys_def
      class_total_def method_fights_def ko_fight_def decision_fight_def fly_fight_def
      less_eq_char_def less_char_def exact_def)





section \<open>Wins by category: no win\<close>

lemma no_W_no_record:
  assumes "result_code (p1_result r) \<noteq> ''W''" and "result_code (p2_result r) \<noteq> ''W''"
  shows "win_record r = []"
  using assms by (simp add: win_record_def Let_def)

lemma no_records_empty:
  assumes "\<forall>r\<in>set df_wt. win_record r = []"
  shows "fighter_wins_by_category_and_method df_wt
     = \<lparr>columns = [''fighter_name'', ''wtClass'', ''metodo'', ''wins''], rows = []\<rparr>"
  using assms by (simp add: fighter_wins_by_category_and_method_def Let_def)

lemma all_dropped_empty:
  assumes "present_records (concat (map win_record df_wt)) = []"
  shows "rows (fighter_wins_by_category_and_method df_wt) = []"
  using assms
  by (simp add: fighter_wins_by_category_and_method_def Let_def frame_value_counts_def)

lemma wins_columns:
  "columns (fighter_wins_by_category_and_method df_wt) = [''fighter_name'', ''wtClass'', ''metodo'', ''wins'']"
  by (simp add: fighter_wins_by_category_and_method_def Let_def)

text \<open>
  C8. \<^verbatim>\<open>fighter_wins_by_category_and_method\<close> on no fight, on fights none of which has a
  result \<^verbatim>\<open>W\<close>, and on fights none of which records a win, returns the table with the
  columns \<^verbatim>\<open>fighter_name\<close>, \<^verbatim>\<open>wtClass\<close>, \<^verbatim>\<open>metodo\<close> and \<^verbatim>\<open>wins\<close> and no row. The
  table has no row either when every recorded win lacks its weight class or its method.
  The function has no error: it returns a table with these columns for every list of
  fights.
\<close>

theorem no_wins_empty_table:
  "fighter_wins_by_category_and_method []
     = \<lparr>columns = [''fighter_name'', ''wtClass'', ''metodo'', ''wins''], rows = []\<rparr> \<and>
   ((\<forall>r\<in>set df_wt. result_code (p1_result r) \<noteq> ''W'' \<and> result_code (p2_result r) \<noteq> ''W'')
      \<longrightarrow> fighter_wins_by_category_and_method df_wt
            = \<lparr>columns = [''fighter_name'', ''wtClass'', ''metodo'', ''wins''], rows = []\<rparr>) \<and>
   ((\<forall>r\<in>set df_wt. win_record r = [])
      \<longrightarrow> fighter_wins_by_category_and_method df_wt
            = \<lparr>columns = [''fighter_name'', ''wtClass'', ''metodo'', ''wins''], rows = []\<rparr>) \<and>
   (present_records (concat (map win_record df_wt)) = []
      \<longrightarrow> rows (fighter_wins_by_category_and_method df_wt) = []) \<and>
   columns (fighter_wins_by_category_and_method df_wt)
     = [''fighter_name'', ''wtClass'', ''metodo'', ''wins'']"
  using no_records_empty [of "[]"] no_records_empty [of df_wt] wins_columns [of df_wt]
    all_dropped_empty [of df_wt]
  by (simp add: no_W_no_record)

lemma result_code_D: "result_code (Str ''D'') = ''D''"
  by (simp add: result_code_def strip_def lstrip_def rstrip_def isspace_def upper_def
      upper_char_def)

theorem no_wins_empty_table_witness:
  "result_code (p1_result draw_fight) \<noteq> ''W'' \<and> result_code (p2_result draw_fight) \<noteq> ''W'' \<and>
   fighter_wins_by_category_and_method [draw_fight, draw_fight]
     = \<lparr>columns = [''fighter_name'', ''wtClass'', ''metodo'', ''wins''], rows = []\<rparr>"
proof -
  have d: "result_code (p1_result draw_fight) \<noteq> ''W'' \<and> result_code (p2_result draw_fight) \<noteq> ''W''"
    by (simp add: draw_fight_def result_code_D) (simp add: result_code_def)
  then have "\<forall>r\<in>set [draw_fight, draw_fight].
      result_code (p1_result r) \<noteq> ''W'' \<and> result_code (p2_result r) \<noteq> ''W''"
    by simp
  with no_wins_empty_table [of "[draw_fight, draw_fight]"]
  have "fighter_wins_by_category_and_method [draw_fight, draw_fight]
     = \<lparr>columns = [''fighter_name'', ''wtClass'', ''metodo'', ''wins''], rows = []\<rparr>"
    by blast
  with d show ?thesis by simp
qed

section \<open>Top fighters: the unknown metric\<close>

lemma messages_differ: "metric_not_found a \<noteq> label_not_unique b"
  by (simp add: metric_not_found_def label_not_unique_def)

lemma unknown_metric_iff:
  "top_fighters_by_metric df_stats metric top_n = Inl (ValueError (metric_not_found metric))
     \<longleftrightarrow> metric \<notin> set (frame_columns df_stats)"
  by (auto simp: top_fighters_by_metric_def Let_def messages_differ messages_differ [THEN not_sym]
      split: list.splits prod.splits)

lemma filter_label_single:
  assumes "distinct (map fst cs)" and "l \<in> set (map fst cs)"
  shows "\<exists>vals. filter (\<lambda>c. fst c = l) cs = [(l, vals)]"
  using assms
proof (induction cs)
  case Nil
  then show ?case by simp
next
  case (Cons c cs)
  show ?case
  proof (cases "fst c = l")
    case True
    then have "l \<notin> set (map fst cs)" using Cons.prems(1) by auto
    then have "filter (\<lambda>c. fst c = l) cs = []" by (auto simp: filter_empty_conv)
    then show ?thesis using True by (cases c) auto
  next
    case False
    then show ?thesis using Cons by auto
  qed
qed

lemma present_metric_returns:
  assumes "distinct (frame_columns df_stats)" and "metric \<in> set (map fst (metric_cols df_stats))"
  shows "\<exists>out. top_fighters_by_metric df_stats metric top_n = Inr out
            \<and> columns out = [''fighter_name'', metric]"
proof -
  have "''fighter_name'' \<notin> set (map fst (metric_cols df_stats))"
    using assms(1) by (simp add: frame_columns_def)
  then have ne: "metric \<noteq> ''fighter_name''" using assms(2) by blast
  have d: "distinct (map fst (metric_cols df_stats))" using assms(1) by (simp add: frame_columns_def)
  obtain vals where "filter (\<lambda>c. fst c = metric) (metric_cols df_stats) = [(metric, vals)]"
    using filter_label_single [OF d assms(2)] by blast
  then show ?thesis
    using ne assms(2) by (simp add: top_fighters_by_metric_def frame_columns_def Let_def)
qed

lemma raises_iff_unknown:
  assumes "distinct (frame_columns df_stats)" and "metric \<noteq> ''fighter_name''"
  shows "isl (top_fighters_by_metric df_stats metric top_n)
     \<longleftrightarrow> metric \<notin> set (frame_columns df_stats)"
proof (cases "metric \<in> set (frame_columns df_stats)")
  case True
  then have "metric \<in> set (map fst (metric_cols df_stats))"
    using assms(2) by (simp add: frame_columns_def)
  then show ?thesis using present_metric_returns [OF assms(1), of metric top_n] True by auto
next
  case False
  then show ?thesis by (simp add: top_fighters_by_metric_def)
qed

text \<open>The rows that the function returns are in descending order of the metric.\<close>

lemma sorted_head: "sorted (map k xs) \<Longrightarrow> sorted (map k (head n xs))"
  by (simp add: head_def take_map [symmetric] sorted_wrt_take del: take_map)

lemma top_rows_descending:
  assumes "top_fighters_by_metric df_stats metric top_n = Inr out"
  shows "sorted (map (\<lambda>r. - snd r) (rows out))"
  using assms
  by (auto simp: top_fighters_by_metric_def Let_def sorted_head
      split: if_splits list.splits prod.splits)

lemma top_example:
  "top_fighters_by_metric (by_columns example_stats) ''TD_Avg'' 10
     = Inr \<lparr>columns = [''fighter_name'', ''TD_Avg''], rows = [(''Max Roe'', 3), (''John Doe'', 1)]\<rparr>"
  by (simp add: top_fighters_by_metric_def by_columns_def example_stats_def frame_columns_def
      dropna_pairs_def head_def)

text \<open>
  C9, as the code has it. \<^verbatim>\<open>top_fighters_by_metric\<close> raises the \<^verbatim>\<open>ValueError\<close> that says
  the metric was not found exactly when the metric is not a column of the statistics
  table. When the labels of the table are distinct, it returns a table for every metric
  column that is present, and for every name but that of the name column it raises
  exactly when the name is not a column.
\<close>

theorem unknown_metric_raises:
  "(top_fighters_by_metric df_stats metric top_n = Inl (ValueError (metric_not_found metric))
      \<longleftrightarrow> metric \<notin> set (frame_columns df_stats)) \<and>
   (distinct (frame_columns df_stats) \<and> metric \<in> set (map fst (metric_cols df_stats)) \<longrightarrow>
      (\<exists>out. top_fighters_by_metric df_stats metric top_n = Inr out
             \<and> columns out = [''fighter_name'', metric])) \<and>
   (distinct (frame_columns df_stats) \<and> metric \<noteq> ''fighter_name'' \<longrightarrow>
      (isl (top_fighters_by_metric df_stats metric top_n)
         \<longleftrightarrow> metric \<notin> set (frame_columns df_stats)))"
  using unknown_metric_iff [of df_stats metric top_n]
    present_metric_returns [of df_stats metric top_n]
    raises_iff_unknown [of df_stats metric top_n]
  by blast

theorem unknown_metric_raises_witness:
  "distinct (frame_columns (by_columns example_stats)) \<and>
   ''TD_Avg'' \<in> set (map fst (metric_cols (by_columns example_stats))) \<and>
   \<not> isl (top_fighters_by_metric (by_columns example_stats) ''TD_Avg'' 10) \<and>
   top_fighters_by_metric (by_columns example_stats) ''TD_Avg'' 10
     = Inr \<lparr>columns = [''fighter_name'', ''TD_Avg''], rows = [(''Max Roe'', 3), (''John Doe'', 1)]\<rparr> \<and>
   ''Reach'' \<notin> set (frame_columns (by_columns example_stats)) \<and>
   top_fighters_by_metric (by_columns example_stats) ''Reach'' 10
     = Inl (ValueError (metric_not_found ''Reach''))"
proof -
  have d: "distinct (frame_columns (by_columns example_stats))"
    by (simp add: by_columns_def frame_columns_def)
  have t: "''TD_Avg'' \<in> set (map fst (metric_cols (by_columns example_stats)))"
    by (simp add: by_columns_def)
  have n: "''TD_Avg'' \<noteq> ''fighter_name''" by simp
  have r: "''Reach'' \<notin> set (frame_columns (by_columns example_stats))"
    by (simp add: by_columns_def frame_columns_def)
  have "top_fighters_by_metric (by_columns example_stats) ''Reach'' 10
     = Inl (ValueError (metric_not_found ''Reach''))"
    using unknown_metric_raises [of "by_columns example_stats" "''Reach''" 10] r by blast
  moreover have "\<not> isl (top_fighters_by_metric (by_columns example_stats) ''TD_Avg'' 10)"
    using unknown_metric_raises [of "by_columns example_stats" "''TD_Avg''" 10] d t by auto
  ultimately show ?thesis using d t r top_example by simp
qed

text \<open>
  The name column is a column that is present, and asking for it raises: the guard lets
  it pass, both selected columns have its label, and \<^verbatim>\<open>sort_values\<close> refuses a label that
  is not unique.
\<close>

theorem name_column_raises:
  "''fighter_name'' \<in> set (frame_columns (by_columns example_stats)) \<and>
   distinct (frame_columns (by_columns example_stats)) \<and>
   top_fighters_by_metric (by_columns example_stats) ''fighter_name'' 10
     = Inl (ValueError (label_not_unique ''fighter_name'')) \<and>
   isl (top_fighters_by_metric (by_columns example_stats) ''fighter_name'' 10)"
  by (simp add: top_fighters_by_metric_def by_columns_def frame_columns_def)

section \<open>Descriptive statistics: mean and median\<close>

lemma dropna_num_Some: "dropna_num (map Some ys) = ys"
  by (induction ys) (simp_all add: dropna_num_def)

lemma mean_skips_missing: "series_mean xs = series_mean (map Some (dropna_num xs))"
  by (simp add: series_mean_def dropna_num_Some)

lemma median_skips_missing: "series_median xs = series_median (map Some (dropna_num xs))"
  by (simp add: series_median_def dropna_num_Some)

lemma nothing_present:
  "dropna_num xs = [] \<Longrightarrow> series_mean xs = None \<and> series_median xs = None"
  by (simp add: series_mean_def series_median_def)

lemma mean_is_mean:
  assumes "dropna_num xs \<noteq> []"
  shows "\<exists>m. series_mean xs = Some m \<and> m * of_nat (length (dropna_num xs)) = sum_list (dropna_num xs)"
  using assms by (simp add: series_mean_def Let_def)

lemma length_filter_mono:
  "(\<And>x. P x \<Longrightarrow> Q x) \<Longrightarrow> length (filter P xs) \<le> length (filter Q xs)"
  by (induction xs) auto

lemma sorted_count_le:
  fixes s :: "rat list"
  assumes "sorted s" and "k < length s"
  shows "Suc k \<le> length (filter (\<lambda>v. v \<le> s ! k) s)"
proof -
  have "\<forall>v\<in>set (take (Suc k) s). v \<le> s ! k"
  proof
    fix v assume "v \<in> set (take (Suc k) s)"
    then obtain i where "i < Suc k" and "v = s ! i" using assms(2)
      by (auto simp: in_set_conv_nth)
    then show "v \<le> s ! k" using assms by (simp add: sorted_nth_mono)
  qed
  then have "filter (\<lambda>v. v \<le> s ! k) (take (Suc k) s) = take (Suc k) s" by simp
  moreover have "length (filter (\<lambda>v. v \<le> s ! k) s)
      = length (filter (\<lambda>v. v \<le> s ! k) (take (Suc k) s))
        + length (filter (\<lambda>v. v \<le> s ! k) (drop (Suc k) s))"
    by (metis append_take_drop_id filter_append length_append)
  ultimately show ?thesis using assms(2) by simp
qed

lemma sorted_count_ge:
  fixes s :: "rat list"
  assumes "sorted s" and "k < length s"
  shows "length s - k \<le> length (filter (\<lambda>v. s ! k \<le> v) s)"
proof -
  have "\<forall>v\<in>set (drop k s). s ! k \<le> v"
  proof
    fix v assume "v \<in> set (drop k s)"
    then obtain i where "i < length s - k" and "v = s ! (k + i)"
      by (auto simp: in_set_conv_nth)
    then show "s ! k \<le> v" using assms by (simp add: sorted_nth_mono)
  qed
  then have "filter (\<lambda>v. s ! k \<le> v) (drop k s) = drop k s" by simp
  moreover have "length (filter (\<lambda>v. s ! k \<le> v) s)
      = length (filter (\<lambda>v. s ! k \<le> v) (take k s))
        + length (filter (\<lambda>v. s ! k \<le> v) (drop k s))"
    by (metis append_take_drop_id filter_append length_append)
  ultimately show ?thesis by simp
qed

lemma length_filter_sort: "length (filter P (sort vs)) = length (filter P vs)"
  by (simp add: filter_sort)

lemma median_is_median:
  assumes "dropna_num xs \<noteq> []"
  shows "\<exists>d. series_median xs = Some d \<and>
     length (dropna_num xs) \<le> 2 * length (filter (\<lambda>v. v \<le> d) (dropna_num xs)) \<and>
     length (dropna_num xs) \<le> 2 * length (filter (\<lambda>v. d \<le> v) (dropna_num xs))"
proof -
  define s where "s = sort (dropna_num xs)"
  define n where "n = length s"
  have sorted: "sorted s" by (simp add: s_def)
  have n: "n = length (dropna_num xs)" "0 < n" using assms by (simp_all add: n_def s_def)
  have cnt: "\<And>P. length (filter P s) = length (filter P (dropna_num xs))"
    by (simp add: s_def length_filter_sort)
  have med: "series_median xs =
      (if odd n then Some (s ! (n div 2)) else Some ((s ! (n div 2 - 1) + s ! (n div 2)) / 2))"
  proof -
    have "sort (dropna_num xs) \<noteq> []" using assms by (metis length_0_conv length_sort)
    then show ?thesis unfolding n_def s_def by (simp add: series_median_def Let_def)
  qed
  show ?thesis
  proof (cases "odd n")
    case True
    define d where "d = s ! (n div 2)"
    have "length s = n" by (simp add: n_def)
    then have k: "n div 2 < length s" using n(2) by linarith
    have m: "series_median xs = Some d"
      using True by (simp add: med d_def)
    have "Suc (n div 2) \<le> length (filter (\<lambda>v. v \<le> d) s)"
      unfolding d_def using sorted k by (rule sorted_count_le)
    moreover have "n - n div 2 \<le> length (filter (\<lambda>v. d \<le> v) s)"
      unfolding d_def n_def using sorted k [unfolded n_def] by (rule sorted_count_ge)
    ultimately show ?thesis using m n(1) by (auto simp: cnt)
  next
    case False
    define a where "a = s ! (n div 2 - 1)"
    define b where "b = s ! (n div 2)"
    define d where "d = (a + b) / 2"
    have "length s = n" by (simp add: n_def)
    then have k1: "n div 2 - 1 < length s" and k2: "n div 2 < length s"
      using n(2) by linarith+
    have ab: "a \<le> b" unfolding a_def b_def using sorted k2 by (simp add: sorted_nth_mono)
    then have ad: "a \<le> d" and db: "d \<le> b" by (simp_all add: d_def)
    have m: "series_median xs = Some d"
      using False by (simp add: med d_def a_def b_def)
    have n2: "2 \<le> n" using False n(2) by presburger
    have "Suc (n div 2 - 1) \<le> length (filter (\<lambda>v. v \<le> a) s)"
      unfolding a_def using sorted k1 by (rule sorted_count_le)
    also have "\<dots> \<le> length (filter (\<lambda>v. v \<le> d) s)"
      using ad by (intro length_filter_mono) simp
    finally have le: "n div 2 \<le> length (filter (\<lambda>v. v \<le> d) s)" using n2 by simp
    have "n - n div 2 \<le> length (filter (\<lambda>v. b \<le> v) s)"
      unfolding b_def n_def using sorted k2 [unfolded n_def] by (rule sorted_count_ge)
    also have "\<dots> \<le> length (filter (\<lambda>v. d \<le> v) s)"
      using db by (intro length_filter_mono) simp
    finally have ge: "n - n div 2 \<le> length (filter (\<lambda>v. d \<le> v) s)" .
    show ?thesis using m n(1) le ge False by (auto simp: cnt)
  qed
qed

lemma summary_keys:
  "map fst (summary_fighter_stats df_stats) =
     [''media_precisao_golpes'', ''mediana_precisao_golpes'', ''media_precisao_quedas'',
      ''mediana_precisao_quedas'', ''media_quedas_por_luta'', ''mediana_quedas_por_luta'',
      ''media_golpes_por_minuto'', ''mediana_golpes_por_minuto'', ''media_finalizacao_por_luta'',
      ''mediana_finalizacao_por_luta'']"
  by (simp add: summary_fighter_stats_def)

lemma summary_entries:
  "\<forall>(mean_key, median_key, col) \<in> set summarised_metrics.
      map_of (summary_fighter_stats df_stats) mean_key = Some (series_mean (map col df_stats)) \<and>
      map_of (summary_fighter_stats df_stats) median_key = Some (series_median (map col df_stats))"
  by (simp add: summarised_metrics_def summary_fighter_stats_def)

lemma summary_ignores_others:
  "summary_fighter_stats (map (\<lambda>s. s\<lparr>SApM := a, Str_Def_Pct := b, TD_Def_Pct := c\<rparr>) df_stats)
     = summary_fighter_stats df_stats"
  by (simp add: summary_fighter_stats_def o_def)

lemma summary_example:
  "summary_fighter_stats example_stats =
     [(''media_precisao_golpes'', Some 50), (''mediana_precisao_golpes'', Some 50),
      (''media_precisao_quedas'', Some 25), (''mediana_precisao_quedas'', Some 25),
      (''media_quedas_por_luta'', Some 2), (''mediana_quedas_por_luta'', Some 2),
      (''media_golpes_por_minuto'', Some 3), (''mediana_golpes_por_minuto'', Some 3),
      (''media_finalizacao_por_luta'', Some (1 / 4)),
      (''mediana_finalizacao_por_luta'', Some (1 / 4))]"
  by (simp add: summary_fighter_stats_def example_stats_def series_mean_def series_median_def
      dropna_num_def)

text \<open>
  C4, as the code has it. The summary has a mean and a median for each of five metrics:
  the accuracy of strikes, the accuracy of takedowns, the takedowns per fight, the
  significant strikes per minute and the submission attempts per fight; the other
  columns of the statistics do not matter. Missing values are left out of both: the
  mean and the median of a column are those of its present values. With a present value,
  the mean times the number of present values is their sum, and at least half of the
  present values are at most the median and at least half are at least the median. With
  no present value both are NaN.
\<close>

theorem summary_of_five_metrics:
  "map fst (summary_fighter_stats df_stats) =
     [''media_precisao_golpes'', ''mediana_precisao_golpes'', ''media_precisao_quedas'',
      ''mediana_precisao_quedas'', ''media_quedas_por_luta'', ''mediana_quedas_por_luta'',
      ''media_golpes_por_minuto'', ''mediana_golpes_por_minuto'', ''media_finalizacao_por_luta'',
      ''mediana_finalizacao_por_luta''] \<and>
   (\<forall>(mean_key, median_key, col) \<in> set summarised_metrics.
      map_of (summary_fighter_stats df_stats) mean_key = Some (series_mean (map col df_stats)) \<and>
      map_of (summary_fighter_stats df_stats) median_key
        = Some (series_median (map col df_stats))) \<and>
   summary_fighter_stats (map (\<lambda>s. s\<lparr>SApM := a, Str_Def_Pct := b, TD_Def_Pct := c\<rparr>) df_stats)
     = summary_fighter_stats df_stats \<and>
   (\<forall>xs. series_mean xs = series_mean (map Some (dropna_num xs)) \<and>
         series_median xs = series_median (map Some (dropna_num xs))) \<and>
   (\<forall>xs. dropna_num xs = [] \<longrightarrow> series_mean xs = None \<and> series_median xs = None) \<and>
   (\<forall>xs. dropna_num xs \<noteq> [] \<longrightarrow>
      (\<exists>m. series_mean xs = Some m
           \<and> m * of_nat (length (dropna_num xs)) = sum_list (dropna_num xs)) \<and>
      (\<exists>d. series_median xs = Some d \<and>
           length (dropna_num xs) \<le> 2 * length (filter (\<lambda>v. v \<le> d) (dropna_num xs)) \<and>
           length (dropna_num xs) \<le> 2 * length (filter (\<lambda>v. d \<le> v) (dropna_num xs))))"
proof (intro conjI allI impI)
  show "map fst (summary_fighter_stats df_stats) =
     [''media_precisao_golpes'', ''mediana_precisao_golpes'', ''media_precisao_quedas'',
      ''mediana_precisao_quedas'', ''media_quedas_por_luta'', ''mediana_quedas_por_luta'',
      ''media_golpes_por_minuto'', ''mediana_golpes_por_minuto'', ''media_finalizacao_por_luta'',
      ''mediana_finalizacao_por_luta'']"
    by (rule summary_keys)
  show "\<forall>(mean_key, median_key, col) \<in> set summarised_metrics.
      map_of (summary_fighter_stats df_stats) mean_key = Some (series_mean (map col df_stats)) \<and>
      map_of (summary_fighter_stats df_stats) median_key
        = Some (series_median (map col df_stats))"
    by (rule summary_entries)
  show "summary_fighter_stats
      (map (\<lambda>s. s\<lparr>SApM := a, Str_Def_Pct := b, TD_Def_Pct := c\<rparr>) df_stats)
     = summary_fighter_stats df_stats"
    by (rule summary_ignores_others)
next
  fix xs
  show "series_mean xs = series_mean (map Some (dropna_num xs))"
    by (rule mean_skips_missing)
  show "series_median xs = series_median (map Some (dropna_num xs))"
    by (rule median_skips_missing)
next
  fix xs
  assume "dropna_num xs = []"
  then show "series_mean xs = None" and "series_median xs = None"
    using nothing_present by blast+
next
  fix xs
  assume "dropna_num xs \<noteq> []"
  then show "\<exists>m. series_mean xs = Some m
           \<and> m * of_nat (length (dropna_num xs)) = sum_list (dropna_num xs)"
    and "\<exists>d. series_median xs = Some d \<and>
           length (dropna_num xs) \<le> 2 * length (filter (\<lambda>v. v \<le> d) (dropna_num xs)) \<and>
           length (dropna_num xs) \<le> 2 * length (filter (\<lambda>v. d \<le> v) (dropna_num xs))"
    by (rule mean_is_mean, rule median_is_median)
qed

theorem summary_of_five_metrics_witness:
  "(''media_precisao_golpes'', ''mediana_precisao_golpes'', Str_Acc_Pct) \<in> set summarised_metrics \<and>
   map Str_Acc_Pct example_stats = [Some 50, None] \<and>
   dropna_num [Some 50, None] \<noteq> [] \<and>
   map_of (summary_fighter_stats example_stats) ''media_precisao_golpes'' = Some (Some 50) \<and>
   map_of (summary_fighter_stats example_stats) ''mediana_precisao_golpes'' = Some (Some 50) \<and>
   series_mean [Some 50, None] = series_mean [Some 50] \<and>
   dropna_num [None, None] = [] \<and> series_median [None, None] = None"
proof -
  have k: "(''media_precisao_golpes'', ''mediana_precisao_golpes'', Str_Acc_Pct)
      \<in> set summarised_metrics"
    by (simp add: summarised_metrics_def)
  have c: "map Str_Acc_Pct example_stats = [Some 50, None]" by (simp add: example_stats_def)
  have p: "dropna_num [Some 50, None] = [50]" and e: "dropna_num [None, None] = []"
    by (simp_all add: dropna_num_def)
  have "map_of (summary_fighter_stats example_stats) ''media_precisao_golpes''
        = Some (series_mean (map Str_Acc_Pct example_stats)) \<and>
      map_of (summary_fighter_stats example_stats) ''mediana_precisao_golpes''
        = Some (series_median (map Str_Acc_Pct example_stats))"
    using summary_of_five_metrics [of example_stats] k by fast
  moreover have "series_mean [Some 50, None] = series_mean (map Some (dropna_num [Some 50, None]))"
    using summary_of_five_metrics [of example_stats] by fast
  moreover have "series_mean [None, None] = None \<and> series_median [None, None] = None"
    using summary_of_five_metrics [of example_stats] e by fast
  moreover have "series_mean [Some 50, None] = Some 50" "series_median [Some 50, None] = Some 50"
    by (simp_all add: series_mean_def series_median_def p)
  ultimately show ?thesis using k c p e by simp
qed

text \<open>
  The summary of two fighters has ten entries, the mean and the median of five metrics,
  not of six.
\<close>

theorem summary_has_ten_entries:
  "map fst (summary_fighter_stats example_stats) =
     [''media_precisao_golpes'', ''mediana_precisao_golpes'', ''media_precisao_quedas'',
      ''mediana_precisao_quedas'', ''media_quedas_por_luta'', ''mediana_quedas_por_luta'',
      ''media_golpes_por_minuto'', ''mediana_golpes_por_minuto'', ''media_finalizacao_por_luta'',
      ''mediana_finalizacao_por_luta''] \<and>
   example_stats \<noteq> [] \<and>
   length (summary_fighter_stats example_stats) = 2 * 5 \<and>
   length (summary_fighter_stats example_stats) \<noteq> 2 * 6"
  by (simp add: summary_example) (simp add: example_stats_def)

end
